theory Spec2Isabelle
  imports Main "HOL-Library.Char_ord" "HOL-Library.List_Lexorder" "HOL-Library.Option_ord"
begin

section \<open>Strings\<close>

text \<open>
  JavaScript strings are modelled as \<open>string\<close>. A value that may be \<open>undefined\<close> or
  \<open>null\<close> is a \<open>string option\<close>; the test \<open>if (x)\<close> on such a value holds exactly for a
  non-empty string.
\<close>

definition truthy :: "string option \<Rightarrow> bool" where
  "truthy x = (case x of None \<Rightarrow> False | Some v \<Rightarrow> v \<noteq> [])"

fun startsWith :: "string \<Rightarrow> string \<Rightarrow> bool" where
  "startsWith s [] = True"
| "startsWith [] (p # ps) = False"
| "startsWith (c # cs) (p # ps) = (c = p \<and> startsWith cs ps)"

text \<open>\<open>String.prototype.includes\<close>: the pattern occurs as a contiguous run.\<close>

fun includes_str :: "string \<Rightarrow> string \<Rightarrow> bool" where
  "includes_str [] p = (p = [])"
| "includes_str (c # cs) p = (startsWith (c # cs) p \<or> includes_str cs p)"

text \<open>
  \<open>String.prototype.toUpperCase\<close>, on the ASCII letters; every other character is
  kept as it is.
\<close>

definition upper_char :: "char \<Rightarrow> char" where
  "upper_char c =
     (if CHR ''a'' \<le> c \<and> c \<le> CHR ''z'' then char_of (of_char c - (32::nat)) else c)"

definition toUpperCase :: "string \<Rightarrow> string" where
  "toUpperCase s = map upper_char s"

text \<open>\<open>q.replace(/'/g, "''")\<close>: every single quote is doubled.\<close>

fun escape_quotes :: "string \<Rightarrow> string" where
  "escape_quotes [] = []"
| "escape_quotes (c # cs) =
     (if c = CHR 0x27 then CHR 0x27 # CHR 0x27 # escape_quotes cs else c # escape_quotes cs)"

section \<open>The thread cache\<close>

text \<open>
  A row of the SQL table \<open>threads\<close>. The columns \<open>latest_sender\<close>, \<open>latest_received_on\<close>,
  \<open>latest_subject\<close> and \<open>latest_label_ids\<close> are nullable \<open>TEXT\<close>; \<open>None\<close> is SQL \<open>NULL\<close>.
  \<open>latest_label_ids\<close> holds a JSON array of label ids, kept here as the list it encodes.
  The timestamps \<open>created_at\<close> and \<open>updated_at\<close> and the column \<open>categories\<close> are read by
  no query below and are left out.
\<close>

record thread_row =
  row_id :: string
  thread_id :: string
  provider_id :: string
  latest_sender :: "string option"
  latest_received_on :: "string option"
  latest_subject :: "string option"
  latest_label_ids :: "string list option"

text \<open>
  \<open>EXISTS (SELECT 1 FROM json_each(latest_label_ids) WHERE value = ?)\<close>. A bound value of
  \<open>undefined\<close> reaches SQL as \<open>NULL\<close>, and \<open>value = NULL\<close> is true of no element.
\<close>

definition has_label :: "string option \<Rightarrow> thread_row \<Rightarrow> bool" where
  "has_label v r =
     (case v of None \<Rightarrow> False
      | Some l \<Rightarrow> (case latest_label_ids r of None \<Rightarrow> False | Some ls \<Rightarrow> l \<in> set ls))"

text \<open>
  \<open>latest_received_on < ?\<close> on \<open>TEXT\<close> values is the byte-wise lexicographic order; the
  comparison is not true when either side is \<open>NULL\<close>.
\<close>

definition before_cursor :: "string option \<Rightarrow> thread_row \<Rightarrow> bool" where
  "before_cursor v r =
     (case v of None \<Rightarrow> False
      | Some c \<Rightarrow> (case latest_received_on r of None \<Rightarrow> False | Some t \<Rightarrow> t < c))"

text \<open>
  \<open>ORDER BY latest_received_on DESC\<close>: \<open>NULL\<close> sorts below every text value, as \<open>None\<close>
  does in the order on \<open>option\<close>. The sort is stable: rows of equal \<open>latest_received_on\<close>
  stay in the order of the table.
\<close>

definition order_desc :: "thread_row list \<Rightarrow> thread_row list" where
  "order_desc rows = rev (sort_key latest_received_on (rev rows))"

text \<open>\<open>LIMIT n\<close>: a negative \<open>n\<close> puts no bound on the number of rows.\<close>

definition limit_rows :: "int \<Rightarrow> thread_row list \<Rightarrow> thread_row list" where
  "limit_rows n rows = (if n < 0 then rows else take (nat n) rows)"

definition select_threads ::
  "(thread_row \<Rightarrow> bool) \<Rightarrow> int \<Rightarrow> thread_row list \<Rightarrow> thread_row list" where
  "select_threads wh n tbl = limit_rows n (order_desc (filter wh tbl))"

section \<open>getThreadsFromDB\<close>

record list_params =
  labelIds :: "string list"
  folder :: "string option"
  q :: "string option"
  maxResults :: int
  pageToken :: "string option"

definition quote :: string where
  "quote = [CHR 0x27]"

definition newline :: string where
  "newline = [CHR 0x0A]"

definition exists_label_sql :: "string \<Rightarrow> string" where
  "exists_label_sql l =
     ''EXISTS (SELECT 1 FROM json_each(latest_label_ids) WHERE value = '' @ quote @ l @ quote @ '')''"

text \<open>\<open>Array.prototype.join\<close>.\<close>

fun join :: "string \<Rightarrow> string list \<Rightarrow> string" where
  "join sep [] = []"
| "join sep [x] = x"
| "join sep (x # y # ys) = x @ sep @ join sep (y # ys)"

text \<open>
  The list \<open>whereConditions\<close> of SQL fragments. The code only counts its entries and
  searches the single entry for the text \<open>latest_received_on <\<close>; the queries that run
  are the fixed statements of \<open>run_query\<close>.
\<close>

definition folder_conditions :: "list_params \<Rightarrow> string list" where
  "folder_conditions p =
     (if truthy (folder p)
      then [''EXISTS ('' @ newline @ ''            SELECT 1 FROM json_each(latest_label_ids) WHERE value = ''
              @ quote @ toUpperCase (the (folder p)) @ quote @ newline @ ''          )'']
      else [])"

definition label_conditions :: "list_params \<Rightarrow> string list" where
  "label_conditions p =
     (case labelIds p of
        [] \<Rightarrow> []
      | [l] \<Rightarrow> [''EXISTS ('' @ newline @ ''              SELECT 1 FROM json_each(latest_label_ids) WHERE value = ''
                 @ quote @ l @ quote @ newline @ ''            )'']
      | ls \<Rightarrow> [''('' @ join '' OR '' (map exists_label_sql ls) @ '')''])"

definition query_conditions :: "list_params \<Rightarrow> string list" where
  "query_conditions p =
     (if truthy (q p)
      then [''('' @ newline @ ''            latest_subject LIKE '' @ quote @ ''%''
              @ escape_quotes (the (q p)) @ ''%'' @ quote @ '' OR'' @ newline
              @ ''            latest_sender LIKE '' @ quote @ ''%''
              @ escape_quotes (the (q p)) @ ''%'' @ quote @ newline @ ''          )'']
      else [])"

definition cursor_conditions :: "list_params \<Rightarrow> string list" where
  "cursor_conditions p =
     (if truthy (pageToken p)
      then [''latest_received_on < '' @ quote @ the (pageToken p) @ quote]
      else [])"

definition whereConditions :: "list_params \<Rightarrow> string list" where
  "whereConditions p =
     folder_conditions p @ label_conditions p @ query_conditions p @ cursor_conditions p"

text \<open>\<open>labelIds[0]\<close>, which is \<open>undefined\<close> on the empty array.\<close>

definition first_label :: "string list \<Rightarrow> string option" where
  "first_label ls = (case ls of [] \<Rightarrow> None | l # _ \<Rightarrow> Some l)"

text \<open>\<open>pageToken || ''\<close>.\<close>

definition token_or_empty :: "string option \<Rightarrow> string option" where
  "token_or_empty t = (if truthy t then t else Some [])"

text \<open>
  The variable \<open>result\<close>: the rows of the one statement that is executed, chosen by the
  number of conditions and by which parameters are present.
\<close>

definition run_query :: "list_params \<Rightarrow> thread_row list \<Rightarrow> thread_row list" where
  "run_query p tbl =
     (let conds = whereConditions p; n = maxResults p in
      if length conds = 0 then select_threads (\<lambda>r. True) n tbl
      else if length conds = 1 then
        (if includes_str (hd conds) ''latest_received_on <''
         then select_threads (before_cursor (pageToken p)) n tbl
         else if truthy (folder p)
         then select_threads (has_label (Some (toUpperCase (the (folder p))))) n tbl
         else select_threads (has_label (first_label (labelIds p))) n tbl)
      else
        (if truthy (folder p) \<and> length (labelIds p) = 0 \<and> truthy (pageToken p)
         then select_threads
                (\<lambda>r. has_label (Some (toUpperCase (the (folder p)))) r
                      \<and> before_cursor (pageToken p) r) n tbl
         else if length (labelIds p) = 1 \<and> truthy (pageToken p) \<and> \<not> truthy (folder p)
         then select_threads
                (\<lambda>r. has_label (first_label (labelIds p)) r \<and> before_cursor (pageToken p) r) n tbl
         else select_threads (before_cursor (token_or_empty (pageToken p))) n tbl))"

record thread_ref =
  ref_id :: string
  historyId :: "string option"

record list_page =
  page_threads :: "thread_ref list"
  nextPageToken :: "string option"

definition getThreadsFromDB :: "thread_row list \<Rightarrow> list_params \<Rightarrow> list_page" where
  "getThreadsFromDB tbl p =
     (let result = run_query p tbl;
          ts = map (\<lambda>r. \<lparr>ref_id = row_id r, historyId = None\<rparr>) result
      in \<lparr>page_threads = ts,
          nextPageToken =
            (if int (length ts) = maxResults p \<and> length result > 0
             then latest_received_on (last result) else None)\<rparr>)"

section \<open>The agent\<close>

datatype error =
    NoDriver            \<comment> \<open>\<open>Error('No driver available')\<close>\<close>
  | Upstream string     \<comment> \<open>what the retrying fetch of the mail provider throws\<close>
  | InvalidDate         \<comment> \<open>the \<open>RangeError\<close> of \<open>toISOString\<close> on an invalid date\<close>
  | ThreadNotFound      \<comment> \<open>\<open>Error('Thread not found in database, Sync Failed once')\<close>\<close>
  | StreamFailure string

record sender =
  sender_name :: "string option"
  email :: string

record parsed_message =
  receivedOn :: string
  msg_sender :: sender
  subject :: "string option"
  tags :: "string list"
  isDraft :: bool

text \<open>\<open>IGetThreadResponse\<close>; a label is its id and its name.\<close>

record thread_data =
  td_messages :: "parsed_message list"
  latest :: "parsed_message option"
  hasUnread :: bool
  totalReplies :: nat
  labels :: "(string \<times> string) list"

record list_result =
  result_threads :: "string list"
  result_nextPageToken :: "string option"

datatype upstream_call = ListCall string "string option" | GetCall string

type_synonym chat_message = string

datatype outgoing =
    ChatMessages "chat_message list"
  | UseChatResponse string string bool
  | ChatClear
  | Mail_List string
  | Mail_Get string

text \<open>
  What lies outside the agent. \<open>upstream_list\<close> and \<open>upstream_get\<close> are the provider's
  \<open>list\<close> and \<open>get\<close> under \<open>withRetry\<close>; their answer may depend on every request made
  before, so that no two calls need agree. \<open>toISOString\<close> is \<open>new Date(x).toISOString()\<close>,
  \<open>None\<close> where the date is invalid. \<open>findConnection\<close> tells whether the database has a
  connection of that id.
\<close>

record env =
  upstream_list :: "upstream_call list \<Rightarrow> string \<Rightarrow> int option \<Rightarrow> string option \<Rightarrow> error + list_result"
  upstream_get :: "upstream_call list \<Rightarrow> string \<Rightarrow> error + thread_data"
  toISOString :: "string \<Rightarrow> string option"
  stringify_sender :: "sender \<Rightarrow> string"
  findConnection :: "string \<Rightarrow> bool"
  appendResponseMessages :: "chat_message list \<Rightarrow> chat_message list \<Rightarrow> chat_message list"

text \<open>
  \<open>maxCount\<close> is \<open>parseInt(env.THREAD_SYNC_MAX_COUNT || '40', 10)\<close>, \<open>None\<close> where that is
  \<open>NaN\<close>; \<open>shouldLoop\<close> is \<open>env.THREAD_SYNC_LOOP !== 'false'\<close>.
\<close>

record config =
  maxCount :: "int option"
  shouldLoop :: bool

record sync_summary =
  synced :: nat
  message :: "string option"

text \<open>
  A call of \<open>syncThreads\<close> that stands in its loop, about to fetch the page of a token:
  the folder, the token and the threads counted so far.
\<close>

datatype sync_task = InLoop string "string option" nat

text \<open>
  The fields of \<open>ZeroAgent\<close>. \<open>driver\<close> tells whether \<open>this.driver\<close> is set. An
  \<open>AbortController\<close> is the flag \<open>aborted\<close> of its signal. \<open>threads\<close> is the SQL table and
  \<open>bucket\<close> the object store. \<open>sent\<close> lists every broadcast with its exclusion list, and
  \<open>calls\<close> every request made to the mail provider, both in order. \<open>waiting\<close> lists the
  folder syncs handed to \<open>this.ctx.waitUntil\<close> that have not returned.
\<close>

record agent =
  name :: string
  driver :: bool
  chatMessageAbortControllers :: "string \<rightharpoonup> bool"
  foldersInSync :: "string \<rightharpoonup> bool"
  syncThreadsInProgress :: "string \<rightharpoonup> bool"
  currentFolder :: "string option"
  threads :: "thread_row list"
  bucket :: "string \<rightharpoonup> thread_data"
  messages :: "chat_message list"
  sent :: "(outgoing \<times> string list) list"
  calls :: "upstream_call list"
  waiting :: "sync_task list"

definition broadcastChatMessage :: "agent \<Rightarrow> outgoing \<Rightarrow> string list \<Rightarrow> agent" where
  "broadcastChatMessage s m exclude = s\<lparr>sent := sent s @ [(m, exclude)]\<rparr>"

definition getThreadCount :: "agent \<Rightarrow> int" where
  "getThreadCount s = int (length (threads s))"

text \<open>\<open>threadCount >= maxCount\<close>, false against \<open>NaN\<close>.\<close>

definition threshold_met :: "config \<Rightarrow> int \<Rightarrow> bool" where
  "threshold_met cfg threadCount = (case maxCount cfg of None \<Rightarrow> False | Some m \<Rightarrow> m \<le> threadCount)"

subsection \<open>The steps of syncThreads between its awaits\<close>

text \<open>
  \<open>syncThreads\<close> from its call to its first await, \<open>await this.getThreadCount()\<close>: it
  throws without a driver, returns when the folder is marked, and otherwise has counted
  the cached rows and waits. Nothing is written.
\<close>

datatype sync_start = Returns "error + sync_summary" | AwaitsCount int

definition syncThreads_start :: "agent \<Rightarrow> string \<Rightarrow> sync_start" where
  "syncThreads_start s fld =
     (if \<not> driver s then Returns (Inl NoDriver)
      else if foldersInSync s fld \<noteq> None
      then Returns (Inr \<lparr>synced = 0, message = Some ''Sync already in progress''\<rparr>)
      else AwaitsCount (getThreadCount s))"

text \<open>
  \<open>syncThreads\<close> from that await to the first await of its loop: with the count it
  returns when the threshold is met and the loop flag is false, and otherwise marks the
  folder and enters the loop. The marker is not tested again.
\<close>

datatype sync_entry = AlreadySynced | Entered

definition syncThreads_resume :: "config \<Rightarrow> agent \<Rightarrow> string \<Rightarrow> int \<Rightarrow> sync_entry \<times> agent" where
  "syncThreads_resume cfg s fld threadCount =
     (if threshold_met cfg threadCount \<and> \<not> shouldLoop cfg then (AlreadySynced, s)
      else (Entered, s\<lparr>foldersInSync := (foldersInSync s)(fld \<mapsto> True)\<rparr>))"

subsection \<open>setupAuth\<close>

text \<open>
  \<open>setupAuth\<close> sets the driver when the connection is found, and then calls
  \<open>syncThreads\<close> for the four folders and hands the calls to \<open>waitUntil\<close>. Each call
  runs at once to its await of the count. The four go on, in turn, before the caller of
  \<open>setupAuth\<close> does: a call that enters its loop has marked its folder by then, and
  stays in \<open>waiting\<close>, its first page not yet fetched.
\<close>

definition background_resume :: "config \<Rightarrow> agent \<Rightarrow> string \<times> sync_start \<Rightarrow> agent" where
  "background_resume cfg s started =
     (case snd started of
        Returns r \<Rightarrow> s
      | AwaitsCount threadCount \<Rightarrow>
          (case syncThreads_resume cfg s (fst started) threadCount of
             (AlreadySynced, s') \<Rightarrow> s'
           | (Entered, s') \<Rightarrow> s'\<lparr>waiting := waiting s' @ [InLoop (fst started) None 0]\<rparr>))"

definition setupAuth :: "env \<Rightarrow> config \<Rightarrow> agent \<Rightarrow> string \<Rightarrow> agent" where
  "setupAuth e cfg s connectionId =
     (if connectionId = ''general'' then s
      else if \<not> driver s then
        (let s1 = (if findConnection e connectionId then s\<lparr>driver := True\<rparr> else s);
             started = map (\<lambda>fld. (fld, syncThreads_start s1 fld))
                         [''inbox'', ''sent'', ''spam'', ''archive'']
         in foldl (background_resume cfg) s1 started)
      else s)"

definition getThreadKey :: "agent \<Rightarrow> string \<Rightarrow> string" where
  "getThreadKey s threadId = name s @ ''/'' @ threadId @ ''.json''"

definition listWithRetry ::
  "env \<Rightarrow> agent \<Rightarrow> string \<Rightarrow> int option \<Rightarrow> string option \<Rightarrow> (error + list_result) \<times> agent" where
  "listWithRetry e s fld n tok =
     (if \<not> driver s then (Inl NoDriver, s)
      else (upstream_list e (calls s) fld n tok, s\<lparr>calls := calls s @ [ListCall fld tok]\<rparr>))"

definition getWithRetry :: "env \<Rightarrow> agent \<Rightarrow> string \<Rightarrow> (error + thread_data) \<times> agent" where
  "getWithRetry e s threadId =
     (if \<not> driver s then (Inl NoDriver, s)
      else (upstream_get e (calls s) threadId, s\<lparr>calls := calls s @ [GetCall threadId]\<rparr>))"

subsection \<open>syncThread\<close>

text \<open>\<open>INSERT OR REPLACE INTO threads\<close>: the row of that id, if any, is replaced.\<close>

definition insert_or_replace :: "thread_row \<Rightarrow> thread_row list \<Rightarrow> thread_row list" where
  "insert_or_replace r tbl = filter (\<lambda>x. row_id x \<noteq> row_id r) tbl @ [r]"

datatype sync_result =
    AlreadyInProgress          \<comment> \<open>the bare \<open>return\<close>\<close>
  | Synced thread_data         \<comment> \<open>\<open>{ success: true, threadId, threadData }\<close>\<close>
  | NoLatestMessage            \<comment> \<open>\<open>{ success: false, threadId, reason: 'No latest message' }\<close>\<close>

definition release_thread :: "agent \<Rightarrow> string \<Rightarrow> agent" where
  "release_thread s threadId =
     s\<lparr>syncThreadsInProgress := (syncThreadsInProgress s)(threadId := None)\<rparr>"

definition store_thread :: "env \<Rightarrow> agent \<Rightarrow> string \<Rightarrow> thread_data \<Rightarrow> parsed_message \<Rightarrow> string \<Rightarrow> agent" where
  "store_thread e s threadId threadData l normalizedReceivedOn =
     (let s1 = s\<lparr>bucket := (bucket s)(getThreadKey s threadId \<mapsto> threadData)\<rparr>;
          s2 = s1\<lparr>threads := insert_or_replace
                  \<lparr>row_id = threadId, thread_id = threadId, provider_id = ''google'',
                   latest_sender = Some (stringify_sender e (msg_sender l)),
                   latest_received_on = Some normalizedReceivedOn,
                   latest_subject = subject l,
                   latest_label_ids = Some (tags l)\<rparr> (threads s1)\<rparr>
      in if currentFolder s2 = Some ''inbox''
         then broadcastChatMessage s2 (Mail_Get threadId) [] else s2)"

definition syncThread :: "env \<Rightarrow> config \<Rightarrow> agent \<Rightarrow> string \<Rightarrow> (error + sync_result) \<times> agent" where
  "syncThread e cfg s0 threadId =
     (let s = (if \<not> driver s0 \<and> name s0 \<noteq> ''general'' then setupAuth e cfg s0 (name s0) else s0) in
      if \<not> driver s then (Inl NoDriver, s)
      else if syncThreadsInProgress s threadId \<noteq> None then (Inr AlreadyInProgress, s)
      else
        (let s1 = s\<lparr>syncThreadsInProgress := (syncThreadsInProgress s)(threadId \<mapsto> True)\<rparr> in
         case getWithRetry e s1 threadId of
           (Inl err, s2) \<Rightarrow> (Inl err, release_thread s2 threadId)
         | (Inr threadData, s2) \<Rightarrow>
             (case latest threadData of
                Some l \<Rightarrow>
                  (case toISOString e (receivedOn l) of
                     None \<Rightarrow> (Inl InvalidDate, release_thread s2 threadId)
                   | Some normalizedReceivedOn \<Rightarrow>
                       (Inr (Synced threadData),
                        release_thread
                          (store_thread e s2 threadId threadData l normalizedReceivedOn) threadId))
              | None \<Rightarrow> (Inr NoLatestMessage, release_thread s2 threadId))))"

subsection \<open>syncThreads\<close>

text \<open>
  The \<open>for\<close> loop over the threads of a page: an error of \<open>syncThread\<close> is caught and
  logged, and the loop goes on with the next thread.
\<close>

fun sync_page_threads :: "env \<Rightarrow> config \<Rightarrow> agent \<Rightarrow> string list \<Rightarrow> agent" where
  "sync_page_threads e cfg s [] = s"
| "sync_page_threads e cfg s (t # ts) =
     (case syncThread e cfg s t of
        (Inl err, s') \<Rightarrow> sync_page_threads e cfg s' ts
      | (Inr r, s') \<Rightarrow> sync_page_threads e cfg s' ts)"

text \<open>\<open>pageToken || undefined\<close>.\<close>

definition request_token :: "string option \<Rightarrow> string option" where
  "request_token tok = (if truthy tok then tok else None)"

text \<open>
  The \<open>while (hasMore)\<close> loop, entered with \<open>hasMore = true\<close>: one pass fetches a page,
  syncs its threads and broadcasts, then decides whether to go on. The loop ends only
  if the provider ends the pages or fails, so the function is partial: \<open>None\<close> is a
  loop that runs forever. The pauses between the requests are not modelled.
\<close>

partial_function (option) sync_loop ::
  "env \<Rightarrow> config \<Rightarrow> string \<Rightarrow> agent \<Rightarrow> string option \<Rightarrow> nat \<Rightarrow> ((error + nat) \<times> agent) option" where
  "sync_loop e cfg fld s tok totalSynced =
     (case listWithRetry e s fld (maxCount cfg) (request_token tok) of
        (Inl err, s1) \<Rightarrow> Some (Inl err, s1)
      | (Inr result, s1) \<Rightarrow>
          (let s2 = sync_page_threads e cfg s1 (result_threads result);
               s3 = broadcastChatMessage s2 (Mail_List fld) [];
               totalSynced' = totalSynced + length (result_threads result);
               pageToken' = result_nextPageToken result
           in if pageToken' \<noteq> None \<and> shouldLoop cfg
              then sync_loop e cfg fld s3 pageToken' totalSynced'
              else Some (Inr totalSynced', s3)))"

text \<open>The \<open>finally\<close> block.\<close>

definition sync_finally :: "agent \<Rightarrow> string \<Rightarrow> agent" where
  "sync_finally s fld =
     broadcastChatMessage (s\<lparr>foldersInSync := (foldersInSync s)(fld := None)\<rparr>) (Mail_List fld) []"

definition syncThreads ::
  "env \<Rightarrow> config \<Rightarrow> agent \<Rightarrow> string \<Rightarrow> ((error + sync_summary) \<times> agent) option" where
  "syncThreads e cfg s fld =
     (if \<not> driver s then Some (Inl NoDriver, s)
      else if foldersInSync s fld \<noteq> None
      then Some (Inr \<lparr>synced = 0, message = Some ''Sync already in progress''\<rparr>, s)
      else if threshold_met cfg (getThreadCount s) \<and> \<not> shouldLoop cfg
      then Some (Inr \<lparr>synced = 0, message = Some ''Threads already synced''\<rparr>, s)
      else
        (case sync_loop e cfg fld (s\<lparr>foldersInSync := (foldersInSync s)(fld \<mapsto> True)\<rparr>) None 0 of
           None \<Rightarrow> None
         | Some (Inl err, s') \<Rightarrow> Some (Inl err, sync_finally s' fld)
         | Some (Inr n, s') \<Rightarrow> Some (Inr \<lparr>synced = n, message = None\<rparr>, sync_finally s' fld)))"

text \<open>
  \<open>syncThreads\<close> from a point in its loop to its end: the loop, the answer and the
  \<open>finally\<close> block.
\<close>

definition syncThreads_run ::
  "env \<Rightarrow> config \<Rightarrow> agent \<Rightarrow> sync_task \<Rightarrow> ((error + sync_summary) \<times> agent) option" where
  "syncThreads_run e cfg s task =
     (case task of
        InLoop fld tok totalSynced \<Rightarrow>
          (case sync_loop e cfg fld s tok totalSynced of
             None \<Rightarrow> None
           | Some (Inl err, s') \<Rightarrow> Some (Inl err, sync_finally s' fld)
           | Some (Inr n, s') \<Rightarrow>
               Some (Inr \<lparr>synced = n, message = None\<rparr>, sync_finally s' fld)))"

subsection \<open>Reading the cache\<close>

text \<open>
  The answer built from a cached row and the stored thread: \<open>stored\<close> is the object
  found under the thread's key, if any.
\<close>

definition thread_of_row :: "thread_row \<Rightarrow> thread_data option \<Rightarrow> thread_data" where
  "thread_of_row row stored =
     (let msgs = (case stored of Some t \<Rightarrow> td_messages t | None \<Rightarrow> []);
          latestLabelIds = (case latest_label_ids row of Some ls \<Rightarrow> ls | None \<Rightarrow> [])
      in \<lparr>td_messages = msgs,
          latest = find (\<lambda>m. \<not> isDraft m) (rev msgs),
          hasUnread = (''UNREAD'' \<in> set latestLabelIds),
          totalReplies = length (filter (\<lambda>m. \<not> isDraft m) msgs),
          labels = map (\<lambda>l. (l, l)) latestLabelIds\<rparr>)"

text \<open>\<open>SELECT ... FROM threads WHERE id = ? LIMIT 1\<close>.\<close>

definition select_thread :: "agent \<Rightarrow> string \<Rightarrow> thread_row option" where
  "select_thread s i = find (\<lambda>r. row_id r = i) (threads s)"

function getThreadFromDB ::
  "env \<Rightarrow> config \<Rightarrow> agent \<Rightarrow> string \<Rightarrow> bool \<Rightarrow> (error + thread_data) \<times> agent" where
  "getThreadFromDB e cfg s i lastAttempt =
     (case select_thread s i of
        None \<Rightarrow>
          (if lastAttempt then (Inl ThreadNotFound, s)
           else (case syncThread e cfg s i of
                   (Inl err, s') \<Rightarrow> (Inl err, s')
                 | (Inr r, s') \<Rightarrow> getThreadFromDB e cfg s' i True))
      | Some row \<Rightarrow> (Inr (thread_of_row row (bucket s (getThreadKey s i))), s))"
  by pat_completeness auto
termination
  by (relation "measure (\<lambda>(e, cfg, s, i, lastAttempt). if lastAttempt then 0 else 1)") auto

definition getThread :: "env \<Rightarrow> config \<Rightarrow> agent \<Rightarrow> string \<Rightarrow> (error + thread_data) \<times> agent" where
  "getThread e cfg s threadId =
     (if \<not> driver s then (Inl NoDriver, s) else getThreadFromDB e cfg s threadId False)"

text \<open>The method \<open>get\<close> of the agent.\<close>

definition get_thread :: "env \<Rightarrow> config \<Rightarrow> agent \<Rightarrow> string \<Rightarrow> (error + thread_data) \<times> agent" where
  "get_thread e cfg s i =
     (if \<not> driver s then (Inl NoDriver, s) else getThreadFromDB e cfg s i False)"

definition listThreads :: "agent \<Rightarrow> list_params \<Rightarrow> error + list_page" where
  "listThreads s p = (if \<not> driver s then Inl NoDriver else Inr (getThreadsFromDB (threads s) p))"

text \<open>The method \<open>list\<close> of the agent.\<close>

definition list_threads :: "agent \<Rightarrow> list_params \<Rightarrow> error + list_page" where
  "list_threads s p = (if \<not> driver s then Inl NoDriver else Inr (getThreadsFromDB (threads s) p))"

subsection \<open>The listing as the specification words it\<close>

text \<open>
  The specification's \<open>listThreads(filter)\<close>: the folder label, any one of the label
  ids, a substring match of the free text against the latest subject or the latest
  sender, and the cursor, all at once; newest first, cut at the limit.
\<close>

definition spec_text_match :: "string \<Rightarrow> thread_row \<Rightarrow> bool" where
  "spec_text_match t r =
     ((case latest_subject r of None \<Rightarrow> False | Some x \<Rightarrow> includes_str x t)
      \<or> (case latest_sender r of None \<Rightarrow> False | Some x \<Rightarrow> includes_str x t))"

definition spec_filter :: "list_params \<Rightarrow> thread_row \<Rightarrow> bool" where
  "spec_filter p r =
     ((if truthy (folder p) then has_label (Some (toUpperCase (the (folder p)))) r else True)
      \<and> (if labelIds p = [] then True else list_ex (\<lambda>l. has_label (Some l) r) (labelIds p))
      \<and> (if truthy (q p) then spec_text_match (the (q p)) r else True)
      \<and> (if truthy (pageToken p) then before_cursor (pageToken p) r else True))"

definition spec_listThreads :: "list_params \<Rightarrow> thread_row list \<Rightarrow> thread_row list" where
  "spec_listThreads p tbl = select_threads (spec_filter p) (maxResults p) tbl"

section \<open>Chat requests\<close>

text \<open>
  \<open>getAbortSignal\<close> returns the signal of the controller kept for the id, which it
  creates when there is none. The ids are strings, so the defensive test on the type of
  \<open>id\<close> is passed.
\<close>

definition getAbortSignal :: "agent \<Rightarrow> string \<Rightarrow> bool option \<times> agent" where
  "getAbortSignal s i =
     (let s' = (if chatMessageAbortControllers s i = None
                then s\<lparr>chatMessageAbortControllers := (chatMessageAbortControllers s)(i \<mapsto> False)\<rparr>
                else s)
      in (chatMessageAbortControllers s' i, s'))"

definition removeAbortController :: "agent \<Rightarrow> string \<Rightarrow> agent" where
  "removeAbortController s i =
     s\<lparr>chatMessageAbortControllers := (chatMessageAbortControllers s)(i := None)\<rparr>"

definition cancelChatRequest :: "agent \<Rightarrow> string \<Rightarrow> agent" where
  "cancelChatRequest s i =
     (if chatMessageAbortControllers s i \<noteq> None
      then s\<lparr>chatMessageAbortControllers := (chatMessageAbortControllers s)(i \<mapsto> True)\<rparr>
      else s)"

definition destroyAbortControllers :: "agent \<Rightarrow> agent" where
  "destroyAbortControllers s = s\<lparr>chatMessageAbortControllers := Map.empty\<rparr>"

text \<open>
  \<open>persistMessages\<close> of the chat library: the messages replace the stored ones and are
  broadcast to the other connections.
\<close>

definition persistMessages :: "agent \<Rightarrow> chat_message list \<Rightarrow> string list \<Rightarrow> agent" where
  "persistMessages s msgs exclude =
     broadcastChatMessage (s\<lparr>messages := msgs\<rparr>) (ChatMessages msgs) exclude"

text \<open>
  The body of a response as the loop \<open>for await\<close> sees it: the chunks it yields, decoded,
  and then either its end or a failure.
\<close>

record body_stream =
  chunks :: "string list"
  failure :: "error option"

fun broadcast_chunks :: "agent \<Rightarrow> string \<Rightarrow> string list \<Rightarrow> agent" where
  "broadcast_chunks s i [] = s"
| "broadcast_chunks s i (c # cs) =
     broadcast_chunks (broadcastChatMessage s (UseChatResponse i c False) []) i cs"

definition reply :: "agent \<Rightarrow> string \<Rightarrow> body_stream \<Rightarrow> (error + unit) \<times> agent" where
  "reply s i response =
     (let s1 = broadcast_chunks s i (chunks response) in
      case failure response of
        Some err \<Rightarrow> (Inl err, s1)
      | None \<Rightarrow> (Inr (), broadcastChatMessage s1 (UseChatResponse i [] True) []))"

text \<open>
  The callback \<open>onFinish\<close> that \<open>onMessage\<close> hands to the model provider, which calls it
  with the response messages when the generation has finished.
\<close>

definition chat_onFinish ::
  "env \<Rightarrow> agent \<Rightarrow> string \<Rightarrow> string \<Rightarrow> chat_message list \<Rightarrow> chat_message list \<Rightarrow> agent" where
  "chat_onFinish e s connectionId chatMessageId msgs responseMessages =
     removeAbortController
       (persistMessages s (appendResponseMessages e msgs responseMessages) [connectionId])
       chatMessageId"

text \<open>
  A parsed incoming message; the body of a chat request is the list of messages it
  carries, \<open>None\<close> where it does not parse.
\<close>

datatype incoming =
    InUseChatRequest string string "chat_message list option"
  | InChatClear
  | InChatMessages "chat_message list"
  | InChatRequestCancel string
  | InMail_List
  | InMail_Get

datatype chat_error = BadBody | Failed error

text \<open>
  \<open>onMessage\<close>. \<open>data\<close> is \<open>None\<close> for a message that is no string or no JSON, which is
  ignored. \<open>response\<close> is what \<open>onChatMessage\<close> returns for this request, given the abort
  signal.
\<close>

definition onMessage ::
  "(bool option \<Rightarrow> body_stream option) \<Rightarrow> agent \<Rightarrow> string \<Rightarrow> incoming option
     \<Rightarrow> (chat_error + unit) \<times> agent" where
  "onMessage onChatMessage s connectionId data =
     (case data of
        None \<Rightarrow> (Inr (), s)
      | Some (InUseChatRequest i method body) \<Rightarrow>
          (if method \<noteq> ''POST'' then (Inr (), s)
           else case body of
             None \<Rightarrow> (Inl BadBody, s)
           | Some msgs \<Rightarrow>
               (let s1 = broadcastChatMessage s (ChatMessages msgs) [connectionId];
                    s2 = persistMessages s1 msgs [connectionId];
                    (abortSignal, s3) = getAbortSignal s2 i
                in case onChatMessage abortSignal of
                     Some response \<Rightarrow>
                       (case reply s3 i response of
                          (Inl err, s4) \<Rightarrow> (Inl (Failed err), s4)
                        | (Inr u, s4) \<Rightarrow> (Inr (), s4))
                   | None \<Rightarrow>
                       (Inr (),
                        broadcastChatMessage s3
                          (UseChatResponse i ''No response was generated by the agent.'' True)
                          [connectionId])))
      | Some InChatClear \<Rightarrow>
          (Inr (),
           broadcastChatMessage ((destroyAbortControllers s)\<lparr>messages := []\<rparr>) ChatClear
             [connectionId])
      | Some (InChatMessages msgs) \<Rightarrow> (Inr (), persistMessages s msgs [connectionId])
      | Some (InChatRequestCancel i) \<Rightarrow> (Inr (), cancelChatRequest s i)
      | Some InMail_List \<Rightarrow> (Inr (), s)
      | Some InMail_Get \<Rightarrow> (Inr (), s))"

section \<open>The hotkeys of the mail list\<close>

datatype mutation = BulkArchive "string list" | MarkAsRead "string list" | MarkAsUnread "string list"

text \<open>
  What a handler does: \<open>toast.info\<close> of a message, or \<open>toast.promise\<close> of a mutation with
  the messages of its success and of its failure.
\<close>

datatype ui_action =
    ToastInfo string
  | ToastPromise mutation string string

text \<open>
  \<open>archiveEmail\<close>, from the id under the pointer (\<open>hoveredEmailId.current\<close>) and the bulk
  selection (\<open>mail.bulkSelected\<close>).
\<close>

definition archiveEmail :: "string option \<Rightarrow> string list \<Rightarrow> ui_action" where
  "archiveEmail hoveredEmailId bulkSelected =
     (if truthy hoveredEmailId
      then ToastPromise (BulkArchive [the hoveredEmailId])
             ''common.mail.archived'' ''common.mail.failedToArchive''
      else if length bulkSelected = 0 then ToastInfo ''common.mail.noEmailsToSelect''
      else ToastPromise (MarkAsUnread bulkSelected)
             ''common.mail.archived'' ''common.mail.failedToArchive'')"

definition mutation_of :: "ui_action \<Rightarrow> mutation option" where
  "mutation_of a = (case a of ToastInfo m \<Rightarrow> None | ToastPromise m ok err \<Rightarrow> Some m)"

section \<open>Example data\<close>

definition example_message :: parsed_message where
  "example_message =
     \<lparr>receivedOn = ''2024-03-01'',
      msg_sender = \<lparr>sender_name = Some ''Ann'', email = ''ann@example.org''\<rparr>,
      subject = Some ''hello'', tags = [''INBOX''], isDraft = False\<rparr>"

definition example_thread :: thread_data where
  "example_thread =
     \<lparr>td_messages = [example_message], latest = Some example_message, hasUnread = False,
      totalReplies = 1, labels = [(''INBOX'', ''INBOX'')]\<rparr>"

definition empty_thread :: thread_data where
  "empty_thread =
     \<lparr>td_messages = [], latest = None, hasUnread = False, totalReplies = 0, labels = []\<rparr>"

text \<open>A provider with one page of one thread, which has no message.\<close>

definition example_env :: env where
  "example_env =
     \<lparr>upstream_list =
        (\<lambda>hist fld n tok. Inr \<lparr>result_threads = [''t1''], result_nextPageToken = None\<rparr>),
      upstream_get = (\<lambda>hist i. Inr empty_thread),
      toISOString = (\<lambda>d. Some (d @ ''T00:00:00.000Z'')),
      stringify_sender = email,
      findConnection = (\<lambda>c. True),
      appendResponseMessages = (\<lambda>a b. a @ b)\<rparr>"

text \<open>A provider whose first page carries the empty string as its token.\<close>

definition empty_token_env :: env where
  "empty_token_env =
     example_env\<lparr>upstream_list :=
       (\<lambda>hist fld n tok.
          Inr \<lparr>result_threads = [''t1''],
               result_nextPageToken = (if hist = [] then Some [] else None)\<rparr>)\<rparr>"

text \<open>A provider that fails on thread \<open>t1\<close> and on every listing, and serves every other thread.\<close>

definition flaky_env :: env where
  "flaky_env =
     example_env\<lparr>upstream_list := (\<lambda>hist fld n tok. Inl (Upstream ''rate limit'')),
                 upstream_get :=
                   (\<lambda>hist i. if i = ''t1'' then Inl (Upstream ''rate limit'') else Inr example_thread)\<rparr>"

definition example_agent :: agent where
  "example_agent =
     \<lparr>name = ''conn1'', driver = True, chatMessageAbortControllers = Map.empty,
      foldersInSync = Map.empty, syncThreadsInProgress = Map.empty,
      currentFolder = Some ''inbox'', threads = [], bucket = Map.empty, messages = [],
      sent = [], calls = [], waiting = []\<rparr>"

definition marked_agent :: agent where
  "marked_agent = example_agent\<lparr>foldersInSync := [''inbox'' \<mapsto> True]\<rparr>"

definition driverless_agent :: agent where
  "driverless_agent = example_agent\<lparr>driver := False\<rparr>"

text \<open>
  A provider with one page of the threads \<open>t1\<close> and \<open>t3\<close>, which fails on \<open>t1\<close> and
  serves \<open>t3\<close>.
\<close>

definition failing_thread_env :: env where
  "failing_thread_env =
     example_env\<lparr>upstream_list :=
                   (\<lambda>hist fld n tok.
                      Inr \<lparr>result_threads = [''t1'', ''t3''], result_nextPageToken = None\<rparr>),
                 upstream_get :=
                   (\<lambda>hist i. if i = ''t1'' then Inl (Upstream ''rate limit'') else Inr example_thread)\<rparr>"

definition example_row :: thread_row where
  "example_row =
     \<lparr>row_id = ''t0'', thread_id = ''t0'', provider_id = ''google'',
      latest_sender = Some ''alice'', latest_received_on = Some ''2024-01-01T00:00:00.000Z'',
      latest_subject = Some ''invoice'', latest_label_ids = Some [''INBOX'']\<rparr>"

definition later_row :: thread_row where
  "later_row =
     \<lparr>row_id = ''t2'', thread_id = ''t2'', provider_id = ''google'',
      latest_sender = Some ''bob'', latest_received_on = Some ''2024-02-01T00:00:00.000Z'',
      latest_subject = Some ''hello'', latest_label_ids = Some [''INBOX'', ''UNREAD'']\<rparr>"

definition cached_agent :: agent where
  "cached_agent = example_agent\<lparr>threads := [example_row]\<rparr>"

definition two_row_agent :: agent where
  "two_row_agent = example_agent\<lparr>threads := [example_row, later_row]\<rparr>"

definition looping_config :: config where
  "looping_config = \<lparr>maxCount = Some 1, shouldLoop = True\<rparr>"

definition single_pass_config :: config where
  "single_pass_config = \<lparr>maxCount = Some 1, shouldLoop = False\<rparr>"

definition cursor_params :: list_params where
  "cursor_params =
     \<lparr>labelIds = [], folder = None, q = None, maxResults = 50, pageToken = Some ''2024-03''\<rparr>"

definition text_cursor_params :: list_params where
  "text_cursor_params =
     \<lparr>labelIds = [], folder = None, q = Some ''zzz'', maxResults = 50, pageToken = Some ''2025''\<rparr>"

definition text_params :: list_params where
  "text_params =
     \<lparr>labelIds = [], folder = None, q = Some ''invoice'', maxResults = 50, pageToken = None\<rparr>"

definition broken_stream :: body_stream where
  "broken_stream = \<lparr>chunks = [''Hi''], failure = Some (StreamFailure ''reset'')\<rparr>"

definition whole_stream :: body_stream where
  "whole_stream = \<lparr>chunks = [''Hi'', '' there''], failure = None\<rparr>"

definition example_onChatMessage :: "bool option \<Rightarrow> body_stream option" where
  "example_onChatMessage abortSignal = Some whole_stream"

section \<open>Properties of the cached listing\<close>

lemma select_threads_set: "r \<in> set (select_threads wh n tbl) \<Longrightarrow> wh r \<and> r \<in> set tbl"
  by (auto simp: select_threads_def limit_rows_def order_desc_def split: if_splits
      dest: in_set_takeD)

lemma order_desc_sorted:
  "sorted_wrt (\<lambda>a b. latest_received_on b \<le> latest_received_on a) (order_desc rows)"
proof -
  have "sorted (map latest_received_on (sort_key latest_received_on (rev rows)))"
    by (rule sorted_sort_key)
  then have "sorted_wrt (\<lambda>a b. latest_received_on a \<le> latest_received_on b)
               (sort_key latest_received_on (rev rows))"
    by (simp add: sorted_wrt_map)
  then show ?thesis
    by (simp add: order_desc_def sorted_wrt_rev)
qed

lemma select_threads_sorted:
  "sorted_wrt (\<lambda>a b. latest_received_on b \<le> latest_received_on a) (select_threads wh n tbl)"
  using order_desc_sorted [of "filter wh tbl"]
  by (simp add: select_threads_def limit_rows_def sorted_wrt_take)

lemma cursor_condition_found:
  "includes_str (''latest_received_on < '' @ rest) ''latest_received_on <''"
  by simp

lemma conditions_short:
  "length (folder_conditions p) \<le> 1" "length (label_conditions p) \<le> 1"
  "length (query_conditions p) \<le> 1"
  by (simp_all add: folder_conditions_def label_conditions_def query_conditions_def
      split: list.splits)

text \<open>With a cursor, a single condition can only be the cursor's.\<close>

lemma single_condition_is_cursor:
  assumes "truthy (pageToken p)" and "length (whereConditions p) = 1"
  shows "hd (whereConditions p) = ''latest_received_on < '' @ quote @ the (pageToken p) @ quote"
proof -
  from assms have "folder_conditions p = []" "label_conditions p = []" "query_conditions p = []"
    by (simp_all add: whereConditions_def cursor_conditions_def)
  with assms(1) show ?thesis
    by (simp add: whereConditions_def cursor_conditions_def)
qed

text \<open>Every statement that can run with a cursor carries the cursor's comparison.\<close>

lemma run_query_cursor:
  assumes "truthy (pageToken p)"
  shows "\<exists>wh. run_query p tbl = select_threads wh (maxResults p) tbl
               \<and> (\<forall>r. wh r \<longrightarrow> before_cursor (pageToken p) r)"
proof -
  from assms have ne: "whereConditions p \<noteq> []"
    by (simp add: whereConditions_def cursor_conditions_def)
  show ?thesis
  proof (cases "length (whereConditions p) = 1")
    case True
    with assms have "includes_str (hd (whereConditions p)) ''latest_received_on <''"
      using cursor_condition_found by (simp only: single_condition_is_cursor)
    with True ne have "run_query p tbl =
        select_threads (before_cursor (pageToken p)) (maxResults p) tbl"
      by (simp add: run_query_def Let_def)
    then show ?thesis by blast
  next
    case False
    with ne assms show ?thesis
      by (auto simp add: run_query_def Let_def token_or_empty_def)
  qed
qed

lemma getThreadsFromDB_ids:
  "map ref_id (page_threads (getThreadsFromDB tbl p)) = map row_id (run_query p tbl)"
  by (simp add: getThreadsFromDB_def Let_def comp_def)

text \<open>
  Claim C2. When the cached listing is called with a non-empty cursor \<open>c\<close>, every row of
  the result is a row of the table whose \<open>latest_received_on\<close> is strictly below \<open>c\<close>, the
  rows come in descending order of \<open>latest_received_on\<close>, and the threads returned are the
  ids of these rows in that order; \<open>listThreads\<close> and \<open>list\<close> return that page.
\<close>

theorem cursor_pagination:
  assumes "pageToken p = Some c" and "c \<noteq> []"
  shows "(\<forall>r \<in> set (run_query p (threads s)).
            r \<in> set (threads s) \<and> (\<exists>t. latest_received_on r = Some t \<and> t < c))
       \<and> sorted_wrt (\<lambda>a b. latest_received_on b \<le> latest_received_on a)
           (run_query p (threads s))
       \<and> map ref_id (page_threads (getThreadsFromDB (threads s) p))
           = map row_id (run_query p (threads s))
       \<and> (\<forall>page. listThreads s p = Inr page \<or> list_threads s p = Inr page
             \<longrightarrow> page = getThreadsFromDB (threads s) p)"
proof -
  from assms have tr: "truthy (pageToken p)" by (simp add: truthy_def)
  from run_query_cursor [OF tr, of "threads s"] obtain wh where
    rq: "run_query p (threads s) = select_threads wh (maxResults p) (threads s)" and
    wh: "\<forall>r. wh r \<longrightarrow> before_cursor (pageToken p) r" by blast
  have "\<forall>r \<in> set (run_query p (threads s)).
          r \<in> set (threads s) \<and> (\<exists>t. latest_received_on r = Some t \<and> t < c)"
  proof
    fix r assume "r \<in> set (run_query p (threads s))"
    with rq have "wh r \<and> r \<in> set (threads s)" by (simp add: select_threads_set)
    with wh assms(1) show "r \<in> set (threads s) \<and> (\<exists>t. latest_received_on r = Some t \<and> t < c)"
      by (auto simp: before_cursor_def split: option.splits)
  qed
  moreover have "sorted_wrt (\<lambda>a b. latest_received_on b \<le> latest_received_on a)
                   (run_query p (threads s))"
    by (simp only: rq select_threads_sorted)
  moreover have "\<forall>page. listThreads s p = Inr page \<or> list_threads s p = Inr page
                   \<longrightarrow> page = getThreadsFromDB (threads s) p"
    by (auto simp: listThreads_def list_threads_def split: if_splits)
  ultimately show ?thesis by (simp add: getThreadsFromDB_ids)
qed

theorem cursor_pagination_witness:
  "pageToken cursor_params = Some ''2024-03'' \<and> ''2024-03'' \<noteq> []
   \<and> map row_id (run_query cursor_params (threads two_row_agent)) = [''t2'', ''t0'']
   \<and> list_all (\<lambda>r. \<exists>t. latest_received_on r = Some t \<and> t < ''2024-03'')
         (run_query cursor_params (threads two_row_agent))
   \<and> sorted_wrt (\<lambda>a b. latest_received_on b \<le> latest_received_on a)
         (run_query cursor_params (threads two_row_agent))
   \<and> listThreads two_row_agent cursor_params
       = Inr (getThreadsFromDB (threads two_row_agent) cursor_params)"
proof -
  have tok: "pageToken cursor_params = Some ''2024-03''" by (simp add: cursor_params_def)
  have ne: "''2024-03'' \<noteq> []" by simp
  have rows: "map row_id (run_query cursor_params (threads two_row_agent)) = [''t2'', ''t0'']"
    by (simp add: run_query_def whereConditions_def folder_conditions_def label_conditions_def
        query_conditions_def cursor_conditions_def truthy_def select_threads_def limit_rows_def
        order_desc_def before_cursor_def cursor_params_def two_row_agent_def example_agent_def
        example_row_def later_row_def quote_def)
  have lt: "listThreads two_row_agent cursor_params
      = Inr (getThreadsFromDB (threads two_row_agent) cursor_params)"
    by (simp add: listThreads_def two_row_agent_def example_agent_def)
  from cursor_pagination [OF tok ne, of two_row_agent] tok rows lt show ?thesis
    by (simp add: list_all_iff)
qed

text \<open>
  Claim C3. The cached listing is to keep, among the rows passing the other filters,
  exactly those whose latest subject or latest sender contains the free text. The code
  builds that condition and runs no statement with it. With the text \<open>zzz\<close> and a cursor
  it returns a row that contains \<open>zzz\<close> nowhere, where the listing of the specification is
  empty; with the text \<open>invoice\<close> alone it returns nothing, where the listing of the
  specification has the row whose subject is \<open>invoice\<close>.
\<close>

theorem free_text_query_not_applied:
  "map row_id (run_query text_cursor_params [example_row]) = [''t0'']
   \<and> spec_text_match ''zzz'' example_row = False
   \<and> spec_listThreads text_cursor_params [example_row] = []
   \<and> run_query text_params [example_row] = []
   \<and> map row_id (spec_listThreads text_params [example_row]) = [''t0'']"
  by (simp add: run_query_def whereConditions_def folder_conditions_def label_conditions_def
      query_conditions_def cursor_conditions_def truthy_def select_threads_def limit_rows_def
      order_desc_def before_cursor_def token_or_empty_def text_cursor_params_def text_params_def
      example_row_def spec_listThreads_def spec_filter_def spec_text_match_def has_label_def
      first_label_def quote_def newline_def)

section \<open>Properties of the chat requests\<close>

lemma broadcast_chunks_eq:
  "broadcast_chunks s i cs = s\<lparr>sent := sent s @ map (\<lambda>c. (UseChatResponse i c False, [])) cs\<rparr>"
  by (induction cs arbitrary: s) (simp_all add: broadcastChatMessage_def)

lemma reply_shape:
  "reply s i response =
     (case failure response of
        None \<Rightarrow>
          (Inr (),
           s\<lparr>sent := sent s @ map (\<lambda>c. (UseChatResponse i c False, [])) (chunks response)
                        @ [(UseChatResponse i [] True, [])]\<rparr>)
      | Some err \<Rightarrow>
          (Inl err,
           s\<lparr>sent := sent s @ map (\<lambda>c. (UseChatResponse i c False, [])) (chunks response)\<rparr>))"
  by (simp add: reply_def broadcast_chunks_eq broadcastChatMessage_def split: option.splits)

text \<open>
  Claim C7, as the code has it. \<open>reply\<close> broadcasts one message with \<open>done: false\<close> for
  each chunk of the body, in order, each carrying its chunk. When the body is read to
  its end, exactly one message with \<open>done: true\<close> and the empty body follows, and \<open>reply\<close>
  returns. When reading the body fails, nothing follows the messages broadcast so far and
  the failure is passed on.
\<close>

theorem reply_stream_shape:
  "(failure response = None \<longrightarrow>
      reply s i response =
        (Inr (),
         s\<lparr>sent := sent s @ map (\<lambda>c. (UseChatResponse i c False, [])) (chunks response)
                      @ [(UseChatResponse i [] True, [])]\<rparr>))
   \<and> (failure response = Some err \<longrightarrow>
        reply s i response =
          (Inl err,
           s\<lparr>sent := sent s @ map (\<lambda>c. (UseChatResponse i c False, [])) (chunks response)\<rparr>))"
  by (simp add: reply_shape)

theorem reply_stream_shape_witness:
  "failure whole_stream = None
   \<and> reply example_agent ''r1'' whole_stream =
       (Inr (),
        example_agent\<lparr>sent :=
          [(UseChatResponse ''r1'' ''Hi'' False, []), (UseChatResponse ''r1'' '' there'' False, []),
           (UseChatResponse ''r1'' [] True, [])]\<rparr>)
   \<and> failure broken_stream = Some (StreamFailure ''reset'')
   \<and> reply example_agent ''r1'' broken_stream =
       (Inl (StreamFailure ''reset''),
        example_agent\<lparr>sent := [(UseChatResponse ''r1'' ''Hi'' False, [])]\<rparr>)"
  using reply_stream_shape [where response = whole_stream and s = example_agent and i = "''r1''"]
    reply_stream_shape [where response = broken_stream and s = example_agent and i = "''r1''"
      and err = "StreamFailure ''reset''"]
  by (simp add: whole_stream_def broken_stream_def example_agent_def)

text \<open>
  Claim C7 as it is stated fails: a body that yields the chunk \<open>Hi\<close> and then fails leaves
  one message with \<open>done: false\<close> and no message with \<open>done: true\<close>.
\<close>

theorem failed_stream_has_no_terminator:
  "fst (reply example_agent ''r1'' broken_stream) = Inl (StreamFailure ''reset'')
   \<and> map fst (sent (snd (reply example_agent ''r1'' broken_stream)))
       = [UseChatResponse ''r1'' ''Hi'' False]"
  by (simp add: reply_def broken_stream_def example_agent_def broadcastChatMessage_def)

lemma cancel_unknown: "chatMessageAbortControllers s i = None \<Longrightarrow> cancelChatRequest s i = s"
  by (simp add: cancelChatRequest_def)

lemma cancel_twice: "cancelChatRequest (cancelChatRequest s i) i = cancelChatRequest s i"
  by (simp add: cancelChatRequest_def)

lemma cancel_after_remove:
  "cancelChatRequest (removeAbortController s i) i = removeAbortController s i"
  by (simp add: cancelChatRequest_def removeAbortController_def)

lemma cancel_after_finish:
  "cancelChatRequest (chat_onFinish e s c i msgs rs) i = chat_onFinish e s c i msgs rs"
  by (simp add: chat_onFinish_def cancel_after_remove)

lemma onMessage_cancel:
  "onMessage f s c (Some (InChatRequestCancel i)) = (Inr (), cancelChatRequest s i)"
  by (simp add: onMessage_def)

text \<open>
  Claim C8. A cancel message for an id that has no controller changes nothing and raises
  nothing; so does one for a request that has completed, whose controller \<open>onFinish\<close> has
  removed. Cancelling an id twice leaves the state that cancelling it once leaves.
\<close>

theorem cancel_idempotent:
  "(chatMessageAbortControllers s i = None \<longrightarrow>
      onMessage f s c (Some (InChatRequestCancel i)) = (Inr (), s))
   \<and> onMessage f (chat_onFinish e s c i msgs rs) c (Some (InChatRequestCancel i))
       = (Inr (), chat_onFinish e s c i msgs rs)
   \<and> onMessage f (removeAbortController s i) c (Some (InChatRequestCancel i))
       = (Inr (), removeAbortController s i)
   \<and> onMessage f (snd (onMessage f s c (Some (InChatRequestCancel i)))) c
         (Some (InChatRequestCancel i))
       = onMessage f s c (Some (InChatRequestCancel i))
   \<and> cancelChatRequest (cancelChatRequest s i) i = cancelChatRequest s i"
  by (simp add: onMessage_cancel cancel_unknown cancel_twice cancel_after_remove
      cancel_after_finish)

theorem cancel_idempotent_witness:
  "chatMessageAbortControllers example_agent ''r1'' = None
   \<and> onMessage example_onChatMessage example_agent ''c1'' (Some (InChatRequestCancel ''r1'')) = (Inr (), example_agent)
   \<and> cancelChatRequest (cancelChatRequest (snd (getAbortSignal example_agent ''r1'')) ''r1'') ''r1''
       = cancelChatRequest (snd (getAbortSignal example_agent ''r1'')) ''r1''"
  using cancel_idempotent [where s = example_agent and i = "''r1''" and f = example_onChatMessage and c = "''c1''"]
    cancel_idempotent [where s = "snd (getAbortSignal example_agent ''r1'')" and i = "''r1''"]
  by (simp add: example_agent_def)

lemma cancel_dom:
  "dom (chatMessageAbortControllers (cancelChatRequest s i)) = dom (chatMessageAbortControllers s)"
  by (auto simp: cancelChatRequest_def)

lemma cancel_marks:
  "chatMessageAbortControllers s i \<noteq> None \<Longrightarrow>
     chatMessageAbortControllers (cancelChatRequest s i) i = Some True"
  by (simp add: cancelChatRequest_def)

lemma onMessage_request_controllers:
  "chatMessageAbortControllers
     (snd (onMessage f s c (Some (InUseChatRequest i ''POST'' (Some msgs))))) =
     (if chatMessageAbortControllers s i = None
      then (chatMessageAbortControllers s)(i \<mapsto> False) else chatMessageAbortControllers s)"
  by (auto simp: onMessage_def getAbortSignal_def persistMessages_def broadcastChatMessage_def
      reply_shape Let_def split: option.splits prod.splits sum.splits)

lemma finish_removes:
  "chatMessageAbortControllers (chat_onFinish e s c i msgs rs) i = None"
  by (simp add: chat_onFinish_def removeAbortController_def)

text \<open>
  Claim C9, as the code has it. A chat request creates the controller of its id when
  there is none and keeps the one there is; the completion of the request, through
  \<open>onFinish\<close>, removes it. A cancel message removes nothing: the ids that have a
  controller stay the same, and the controller of the cancelled id is aborted.
\<close>

theorem pending_request_lifecycle:
  "chatMessageAbortControllers
     (snd (onMessage f s c (Some (InUseChatRequest i ''POST'' (Some msgs))))) =
     (if chatMessageAbortControllers s i = None
      then (chatMessageAbortControllers s)(i \<mapsto> False) else chatMessageAbortControllers s)
   \<and> chatMessageAbortControllers (chat_onFinish e s c i msgs rs) i = None
   \<and> dom (chatMessageAbortControllers (snd (onMessage f s c (Some (InChatRequestCancel i)))))
       = dom (chatMessageAbortControllers s)
   \<and> (chatMessageAbortControllers s i \<noteq> None \<longrightarrow>
        chatMessageAbortControllers (snd (onMessage f s c (Some (InChatRequestCancel i)))) i
          = Some True)"
  by (simp only: onMessage_request_controllers finish_removes onMessage_cancel snd_conv
      cancel_dom) (simp add: cancel_marks)

theorem pending_request_lifecycle_witness:
  "chatMessageAbortControllers
     (snd (onMessage example_onChatMessage example_agent ''c1'' (Some (InUseChatRequest ''r1'' ''POST'' (Some []))))) ''r1''
     = Some False
   \<and> chatMessageAbortControllers (snd (getAbortSignal example_agent ''r1'')) ''r1'' \<noteq> None
   \<and> chatMessageAbortControllers
       (snd (onMessage example_onChatMessage (snd (getAbortSignal example_agent ''r1'')) ''c1''
               (Some (InChatRequestCancel ''r1'')))) ''r1'' = Some True"
  using pending_request_lifecycle [where f = example_onChatMessage and s = example_agent and c = "''c1''"
      and i = "''r1''" and msgs = "[]"]
    pending_request_lifecycle [where f = example_onChatMessage and s = "snd (getAbortSignal example_agent ''r1'')"
      and c = "''c1''" and i = "''r1''"]
  by (simp add: example_agent_def getAbortSignal_def Let_def)

text \<open>
  Claim C9 as it is stated fails: after a request for the id \<open>r1\<close> and its cancellation,
  the entry of \<open>r1\<close> is still in the map, aborted.
\<close>

theorem cancel_keeps_entry:
  "chatMessageAbortControllers
     (cancelChatRequest (snd (getAbortSignal example_agent ''r1'')) ''r1'') ''r1'' = Some True"
  by (simp add: cancelChatRequest_def getAbortSignal_def example_agent_def Let_def)

section \<open>Properties of the hotkeys\<close>

text \<open>
  Claim C10. With no email under the pointer and a non-empty bulk selection,
  \<open>archiveEmail\<close> runs the mark-as-unread mutation on the selected ids; it runs the
  bulk-archive mutation exactly when an email is under the pointer.
\<close>

theorem archive_hotkey_marks_unread:
  "(\<not> truthy h \<and> b \<noteq> [] \<longrightarrow>
      archiveEmail h b =
        ToastPromise (MarkAsUnread b) ''common.mail.archived'' ''common.mail.failedToArchive'')
   \<and> ((\<exists>ids. mutation_of (archiveEmail h b) = Some (BulkArchive ids)) \<longleftrightarrow> truthy h)"
  by (auto simp: archiveEmail_def mutation_of_def)

theorem archive_hotkey_marks_unread_witness:
  "\<not> truthy None \<and> [''t0'', ''t2''] \<noteq> []
   \<and> archiveEmail None [''t0'', ''t2''] =
       ToastPromise (MarkAsUnread [''t0'', ''t2'']) ''common.mail.archived''
         ''common.mail.failedToArchive''
   \<and> truthy (Some ''t0'')
   \<and> mutation_of (archiveEmail (Some ''t0'') [''t0'', ''t2'']) = Some (BulkArchive [''t0''])"
  using archive_hotkey_marks_unread [where h = None and b = "[''t0'', ''t2'']"]
    archive_hotkey_marks_unread [where h = "Some ''t0''" and b = "[''t0'', ''t2'']"]
  by (simp add: truthy_def archiveEmail_def mutation_of_def)

section \<open>Properties of the synchronisation\<close>

lemma background_resume_fields:
  "calls (background_resume cfg s p) = calls s" "threads (background_resume cfg s p) = threads s"
  "syncThreadsInProgress (background_resume cfg s p) = syncThreadsInProgress s"
  by (simp_all add: background_resume_def syncThreads_resume_def
      split: sync_start.splits prod.splits sync_entry.splits if_splits)

lemma background_fold_fields:
  "calls (foldl (background_resume cfg) s ps) = calls s
   \<and> threads (foldl (background_resume cfg) s ps) = threads s
   \<and> syncThreadsInProgress (foldl (background_resume cfg) s ps) = syncThreadsInProgress s"
  by (induction ps arbitrary: s) (simp_all add: background_resume_fields)

lemma setupAuth_fields:
  "calls (setupAuth e cfg s c) = calls s" "threads (setupAuth e cfg s c) = threads s"
  "syncThreadsInProgress (setupAuth e cfg s c) = syncThreadsInProgress s"
  by (simp_all add: setupAuth_def Let_def background_resume_fields)

text \<open>The steps, one after the other with nothing in between, are the whole call.\<close>

lemma syncThreads_steps:
  "syncThreads e cfg s fld =
     (case syncThreads_start s fld of
        Returns r \<Rightarrow> Some (r, s)
      | AwaitsCount threadCount \<Rightarrow>
          (case syncThreads_resume cfg s fld threadCount of
             (AlreadySynced, s') \<Rightarrow>
               Some (Inr \<lparr>synced = 0, message = Some ''Threads already synced''\<rparr>, s')
           | (Entered, s') \<Rightarrow> syncThreads_run e cfg s' (InLoop fld None 0)))"
  by (simp add: syncThreads_def syncThreads_start_def syncThreads_resume_def syncThreads_run_def)

text \<open>
  A call of \<open>syncThread\<close> without a driver goes through \<open>setupAuth\<close>: when it returns, the
  four folders are marked and their syncs wait in their loops.
\<close>

lemma driverless_syncThread_starts_folder_syncs:
  "map (foldersInSync (snd (syncThread example_env looping_config driverless_agent ''t1'')))
     [''inbox'', ''sent'', ''spam'', ''archive''] = [Some True, Some True, Some True, Some True]
   \<and> waiting (snd (syncThread example_env looping_config driverless_agent ''t1''))
       = [InLoop ''inbox'' None 0, InLoop ''sent'' None 0, InLoop ''spam'' None 0,
          InLoop ''archive'' None 0]
   \<and> fst (syncThread example_env looping_config driverless_agent ''t1'') = Inr NoLatestMessage"
  by (simp add: syncThread_def setupAuth_def background_resume_def syncThreads_start_def
      syncThreads_resume_def threshold_met_def getThreadCount_def getWithRetry_def
      release_thread_def Let_def driverless_agent_def example_agent_def example_env_def
      looping_config_def empty_thread_def)

text \<open>
  Claim C1. At most one sync of a folder is to be active at a time. \<open>syncThreads\<close> tests
  the marker of its folder before it awaits the count of the cached rows and sets it
  after, so two calls for \<open>inbox\<close> made one after the other, before the first goes on
  from its await, both pass the test: each finds no marker and waits. The first then
  marks the folder and enters its loop; the second, which does not test the marker
  again, marks it too and enters its loop. Both are active, both fetch the page of the
  folder and sync its thread, and the first to end clears the marker while the second
  still runs. The calls of the provider are listed as they come when the loop of the
  first call runs to its end before that of the second.
\<close>

theorem same_tick_calls_both_run:
  "syncThreads_start example_agent ''inbox'' = AwaitsCount 0
   \<and> syncThreads_resume looping_config example_agent ''inbox'' 0 = (Entered, marked_agent)
   \<and> syncThreads_resume looping_config marked_agent ''inbox'' 0 = (Entered, marked_agent)
   \<and> map_option fst
        (syncThreads_run example_env looping_config marked_agent (InLoop ''inbox'' None 0))
       = Some (Inr \<lparr>synced = 1, message = None\<rparr>)
   \<and> map_option (\<lambda>x. foldersInSync (snd x) ''inbox'')
        (syncThreads_run example_env looping_config marked_agent (InLoop ''inbox'' None 0))
       = Some None
   \<and> map_option fst
        (Option.bind
           (syncThreads_run example_env looping_config marked_agent (InLoop ''inbox'' None 0))
           (\<lambda>x. syncThreads_run example_env looping_config (snd x) (InLoop ''inbox'' None 0)))
       = Some (Inr \<lparr>synced = 1, message = None\<rparr>)
   \<and> map_option (calls \<circ> snd)
        (Option.bind
           (syncThreads_run example_env looping_config marked_agent (InLoop ''inbox'' None 0))
           (\<lambda>x. syncThreads_run example_env looping_config (snd x) (InLoop ''inbox'' None 0)))
       = Some [ListCall ''inbox'' None, GetCall ''t1'', ListCall ''inbox'' None, GetCall ''t1'']"
proof -
  have first: "syncThreads_run example_env looping_config marked_agent (InLoop ''inbox'' None 0)
      = Some (Inr \<lparr>synced = 1, message = None\<rparr>,
              example_agent\<lparr>calls := [ListCall ''inbox'' None, GetCall ''t1''],
                sent := [(Mail_List ''inbox'', []), (Mail_List ''inbox'', [])]\<rparr>)"
    unfolding syncThreads_run_def
    apply (subst sync_loop.simps)
    apply (simp add: syncThread_def getWithRetry_def listWithRetry_def release_thread_def
        broadcastChatMessage_def request_token_def truthy_def sync_finally_def Let_def
        example_env_def example_agent_def marked_agent_def looping_config_def empty_thread_def)
    done
  have second: "syncThreads_run example_env looping_config
        (example_agent\<lparr>calls := [ListCall ''inbox'' None, GetCall ''t1''],
           sent := [(Mail_List ''inbox'', []), (Mail_List ''inbox'', [])]\<rparr>)
        (InLoop ''inbox'' None 0)
      = Some (Inr \<lparr>synced = 1, message = None\<rparr>,
              example_agent\<lparr>calls := [ListCall ''inbox'' None, GetCall ''t1'',
                                       ListCall ''inbox'' None, GetCall ''t1''],
                sent := [(Mail_List ''inbox'', []), (Mail_List ''inbox'', []),
                         (Mail_List ''inbox'', []), (Mail_List ''inbox'', [])]\<rparr>)"
    unfolding syncThreads_run_def
    apply (subst sync_loop.simps)
    apply (simp add: syncThread_def getWithRetry_def listWithRetry_def release_thread_def
        broadcastChatMessage_def request_token_def truthy_def sync_finally_def Let_def
        example_env_def example_agent_def looping_config_def empty_thread_def)
    done
  have steps: "syncThreads_start example_agent ''inbox'' = AwaitsCount 0"
    "syncThreads_resume looping_config example_agent ''inbox'' 0 = (Entered, marked_agent)"
    "syncThreads_resume looping_config marked_agent ''inbox'' 0 = (Entered, marked_agent)"
    by (simp_all add: syncThreads_start_def syncThreads_resume_def threshold_met_def
        getThreadCount_def example_agent_def marked_agent_def looping_config_def)
  have cleared: "foldersInSync example_agent ''inbox'' = None"
    by (simp add: example_agent_def)
  show ?thesis
    by (simp add: steps first second cleared)
qed

lemma syncThread_fetch:
  assumes "driver s" and "syncThreadsInProgress s t = None"
  shows "calls (snd (syncThread e cfg s t)) = calls s @ [GetCall t]"
    and "syncThreadsInProgress (snd (syncThread e cfg s t)) = syncThreadsInProgress s"
    and "driver (snd (syncThread e cfg s t))"
    and "foldersInSync (snd (syncThread e cfg s t)) = foldersInSync s"
  using assms
  by (auto simp: syncThread_def getWithRetry_def release_thread_def store_thread_def
      broadcastChatMessage_def Let_def split: sum.splits option.splits)

lemma sync_page_threads_step:
  "sync_page_threads e cfg s (t # ts) = sync_page_threads e cfg (snd (syncThread e cfg s t)) ts"
  by (simp split: prod.splits sum.splits)

lemma sync_page_threads_calls:
  "driver s \<Longrightarrow> \<forall>t \<in> set ts. syncThreadsInProgress s t = None \<Longrightarrow>
     calls (sync_page_threads e cfg s ts) = calls s @ map GetCall ts
     \<and> syncThreadsInProgress (sync_page_threads e cfg s ts) = syncThreadsInProgress s
     \<and> foldersInSync (sync_page_threads e cfg s ts) = foldersInSync s
     \<and> driver (sync_page_threads e cfg s ts)"
proof (induction ts arbitrary: s)
  case Nil
  then show ?case by simp
next
  case (Cons t ts)
  let ?s = "snd (syncThread e cfg s t)"
  from Cons.prems have free: "syncThreadsInProgress s t = None" by simp
  note f = syncThread_fetch [OF Cons.prems(1) free, of e]
  from Cons.prems f have "\<forall>u \<in> set ts. syncThreadsInProgress ?s u = None" by simp
  with Cons.IH [of ?s] f show ?case
    by (simp only: sync_page_threads_step) simp
qed

lemma sync_loop_failure:
  "listWithRetry e s fld (maxCount cfg) (request_token tok) = (Inl err, s1) \<Longrightarrow>
     sync_loop e cfg fld s tok n = Some (Inl err, s1)"
  by (subst sync_loop.simps) simp

lemma sync_loop_stop:
  "listWithRetry e s fld (maxCount cfg) (request_token tok) = (Inr result, s1) \<Longrightarrow>
   result_nextPageToken result = None \<or> \<not> shouldLoop cfg \<Longrightarrow>
     sync_loop e cfg fld s tok n =
       Some (Inr (n + length (result_threads result)),
             broadcastChatMessage (sync_page_threads e cfg s1 (result_threads result)) (Mail_List fld) [])"
  by (subst sync_loop.simps) (auto simp: Let_def)

lemma sync_loop_continue:
  "listWithRetry e s fld (maxCount cfg) (request_token tok) = (Inr result, s1) \<Longrightarrow>
   result_nextPageToken result \<noteq> None \<Longrightarrow> shouldLoop cfg \<Longrightarrow>
     sync_loop e cfg fld s tok n =
       sync_loop e cfg fld
         (broadcastChatMessage (sync_page_threads e cfg s1 (result_threads result)) (Mail_List fld) [])
         (result_nextPageToken result) (n + length (result_threads result))"
  by (subst sync_loop.simps) (simp add: Let_def)

lemma syncThreads_released:
  assumes "driver s" and "foldersInSync s fld = None"
    and "\<not> (threshold_met cfg (getThreadCount s) \<and> \<not> shouldLoop cfg)"
    and "syncThreads e cfg s fld = Some (r, s')"
  shows "foldersInSync s' fld = None"
  using assms
  by (auto simp: syncThreads_def sync_finally_def broadcastChatMessage_def
      split: option.splits sum.splits prod.splits if_splits)

lemma first_list_call:
  "driver s \<Longrightarrow>
     listWithRetry e (s\<lparr>foldersInSync := (foldersInSync s)(fld \<mapsto> True)\<rparr>) fld n (request_token None)
       = (upstream_list e (calls s) fld n None,
          s\<lparr>foldersInSync := (foldersInSync s)(fld \<mapsto> True), calls := calls s @ [ListCall fld None]\<rparr>)"
  by (simp add: listWithRetry_def request_token_def truthy_def)

lemma syncThreads_first_page_failure:
  assumes "driver s" and "foldersInSync s fld = None"
    and "\<not> (threshold_met cfg (getThreadCount s) \<and> \<not> shouldLoop cfg)"
    and "upstream_list e (calls s) fld (maxCount cfg) None = Inl err"
  shows "syncThreads e cfg s fld =
           Some (Inl err,
                 sync_finally
                   (s\<lparr>foldersInSync := (foldersInSync s)(fld \<mapsto> True),
                      calls := calls s @ [ListCall fld None]\<rparr>) fld)"
proof -
  let ?s = "s\<lparr>foldersInSync := (foldersInSync s)(fld \<mapsto> True)\<rparr>"
  from assms have "listWithRetry e ?s fld (maxCount cfg) (request_token None)
      = (Inl err, ?s\<lparr>calls := calls s @ [ListCall fld None]\<rparr>)"
    by (simp add: first_list_call)
  then have "sync_loop e cfg fld ?s None 0 = Some (Inl err, ?s\<lparr>calls := calls s @ [ListCall fld None]\<rparr>)"
    by (rule sync_loop_failure)
  with assms show ?thesis
    by (auto simp: syncThreads_def)
qed

lemma syncThreads_threshold:
  "driver s \<Longrightarrow> foldersInSync s fld = None \<Longrightarrow> threshold_met cfg (getThreadCount s) \<Longrightarrow>
   \<not> shouldLoop cfg \<Longrightarrow>
     syncThreads e cfg s fld = Some (Inr \<lparr>synced = 0, message = Some ''Threads already synced''\<rparr>, s)"
  by (simp add: syncThreads_def)

lemma syncThreads_single_page:
  assumes "driver s" and "foldersInSync s fld = None"
    and "\<not> (threshold_met cfg (getThreadCount s) \<and> \<not> shouldLoop cfg)"
    and "upstream_list e (calls s) fld (maxCount cfg) None = Inr result"
    and "result_nextPageToken result = None \<or> \<not> shouldLoop cfg"
  shows "syncThreads e cfg s fld =
     Some (Inr \<lparr>synced = length (result_threads result), message = None\<rparr>,
           sync_finally
             (broadcastChatMessage
                (sync_page_threads e cfg
                   (s\<lparr>foldersInSync := (foldersInSync s)(fld \<mapsto> True),
                      calls := calls s @ [ListCall fld None]\<rparr>)
                   (result_threads result))
                (Mail_List fld) []) fld)"
proof -
  let ?s = "s\<lparr>foldersInSync := (foldersInSync s)(fld \<mapsto> True)\<rparr>"
  from assms have "listWithRetry e ?s fld (maxCount cfg) (request_token None)
      = (Inr result, ?s\<lparr>calls := calls s @ [ListCall fld None]\<rparr>)"
    by (simp add: first_list_call)
  from sync_loop_stop [OF this assms(5), of 0] assms(1-3) show ?thesis
    by (simp add: syncThreads_def)
qed

text \<open>
  Claim C4, as the code has it. \<open>syncThreads\<close> returns at once with zero synced and fetches
  nothing when the count of cached rows has reached \<open>maxCount\<close> and the loop flag is false.
  Otherwise the first page is fetched, and \<open>syncThreads\<close> returns after it when its token
  is null or the loop flag is false. After any page, the loop returns without fetching
  another page exactly when the token of that page is null or the loop flag is false.
\<close>

theorem sync_stop_conditions:
  "(driver s \<and> foldersInSync s fld = None \<and> threshold_met cfg (getThreadCount s)
      \<and> \<not> shouldLoop cfg \<longrightarrow>
      syncThreads e cfg s fld
        = Some (Inr \<lparr>synced = 0, message = Some ''Threads already synced''\<rparr>, s))
   \<and> (driver s \<and> foldersInSync s fld = None
        \<and> \<not> (threshold_met cfg (getThreadCount s) \<and> \<not> shouldLoop cfg)
        \<and> upstream_list e (calls s) fld (maxCount cfg) None = Inr page
        \<and> (result_nextPageToken page = None \<or> \<not> shouldLoop cfg) \<longrightarrow>
        syncThreads e cfg s fld =
          Some (Inr \<lparr>synced = length (result_threads page), message = None\<rparr>,
                sync_finally
                  (broadcastChatMessage
                     (sync_page_threads e cfg
                        (s\<lparr>foldersInSync := (foldersInSync s)(fld \<mapsto> True),
                           calls := calls s @ [ListCall fld None]\<rparr>)
                        (result_threads page))
                     (Mail_List fld) []) fld))
   \<and> (listWithRetry e s fld (maxCount cfg) (request_token tok) = (Inr result, s1) \<longrightarrow>
        sync_loop e cfg fld s tok n =
          (if result_nextPageToken result \<noteq> None \<and> shouldLoop cfg
           then sync_loop e cfg fld
                  (broadcastChatMessage (sync_page_threads e cfg s1 (result_threads result))
                     (Mail_List fld) [])
                  (result_nextPageToken result) (n + length (result_threads result))
           else Some (Inr (n + length (result_threads result)),
                      broadcastChatMessage (sync_page_threads e cfg s1 (result_threads result))
                        (Mail_List fld) [])))"
proof (intro conjI impI)
  assume "driver s \<and> foldersInSync s fld = None \<and> threshold_met cfg (getThreadCount s)
      \<and> \<not> shouldLoop cfg"
  then show "syncThreads e cfg s fld
        = Some (Inr \<lparr>synced = 0, message = Some ''Threads already synced''\<rparr>, s)"
    by (simp add: syncThreads_threshold)
next
  assume a: "driver s \<and> foldersInSync s fld = None
        \<and> \<not> (threshold_met cfg (getThreadCount s) \<and> \<not> shouldLoop cfg)
        \<and> upstream_list e (calls s) fld (maxCount cfg) None = Inr page
        \<and> (result_nextPageToken page = None \<or> \<not> shouldLoop cfg)"
  then show "syncThreads e cfg s fld =
          Some (Inr \<lparr>synced = length (result_threads page), message = None\<rparr>,
                sync_finally
                  (broadcastChatMessage
                     (sync_page_threads e cfg
                        (s\<lparr>foldersInSync := (foldersInSync s)(fld \<mapsto> True),
                           calls := calls s @ [ListCall fld None]\<rparr>)
                        (result_threads page))
                     (Mail_List fld) []) fld)"
    by (intro syncThreads_single_page) simp_all
next
  assume l: "listWithRetry e s fld (maxCount cfg) (request_token tok) = (Inr result, s1)"
  show "sync_loop e cfg fld s tok n =
          (if result_nextPageToken result \<noteq> None \<and> shouldLoop cfg
           then sync_loop e cfg fld
                  (broadcastChatMessage (sync_page_threads e cfg s1 (result_threads result))
                     (Mail_List fld) [])
                  (result_nextPageToken result) (n + length (result_threads result))
           else Some (Inr (n + length (result_threads result)),
                      broadcastChatMessage (sync_page_threads e cfg s1 (result_threads result))
                        (Mail_List fld) []))"
  proof (cases "result_nextPageToken result \<noteq> None \<and> shouldLoop cfg")
    case True
    with sync_loop_continue [OF l, of n] show ?thesis by simp
  next
    case False
    then have "result_nextPageToken result = None \<or> \<not> shouldLoop cfg" by blast
    from sync_loop_stop [OF l this, of n] False show ?thesis by auto
  qed
qed


theorem sync_stop_conditions_witness:
  "driver cached_agent \<and> foldersInSync cached_agent ''inbox'' = None
   \<and> threshold_met single_pass_config (getThreadCount cached_agent)
   \<and> \<not> shouldLoop single_pass_config
   \<and> syncThreads example_env single_pass_config cached_agent ''inbox''
       = Some (Inr \<lparr>synced = 0, message = Some ''Threads already synced''\<rparr>, cached_agent)
   \<and> \<not> threshold_met single_pass_config (getThreadCount example_agent)
   \<and> upstream_list example_env (calls example_agent) ''inbox'' (maxCount single_pass_config) None
       = Inr \<lparr>result_threads = [''t1''], result_nextPageToken = None\<rparr>
   \<and> map_option fst (syncThreads example_env single_pass_config example_agent ''inbox'')
       = Some (Inr \<lparr>synced = 1, message = None\<rparr>)
   \<and> listWithRetry empty_token_env cached_agent ''inbox'' (maxCount looping_config)
         (request_token None)
       = (Inr \<lparr>result_threads = [''t1''], result_nextPageToken = Some []\<rparr>,
          cached_agent\<lparr>calls := [ListCall ''inbox'' None]\<rparr>)
   \<and> sync_loop empty_token_env looping_config ''inbox'' cached_agent None 0
       = sync_loop empty_token_env looping_config ''inbox''
           (broadcastChatMessage
              (sync_page_threads empty_token_env looping_config
                 (cached_agent\<lparr>calls := [ListCall ''inbox'' None]\<rparr>) [''t1''])
              (Mail_List ''inbox'') [])
           (Some []) 1"
proof -
  have h1: "driver cached_agent \<and> foldersInSync cached_agent ''inbox'' = None
      \<and> threshold_met single_pass_config (getThreadCount cached_agent)
      \<and> \<not> shouldLoop single_pass_config"
    by (simp add: syncThread_def getWithRetry_def listWithRetry_def release_thread_def
        broadcastChatMessage_def request_token_def truthy_def threshold_met_def
        getThreadCount_def sync_finally_def Let_def example_env_def empty_token_env_def
        example_agent_def cached_agent_def looping_config_def single_pass_config_def
        empty_thread_def example_row_def)
  have h2: "driver example_agent \<and> foldersInSync example_agent ''inbox'' = None
      \<and> \<not> (threshold_met single_pass_config (getThreadCount example_agent)
            \<and> \<not> shouldLoop single_pass_config)
      \<and> upstream_list example_env (calls example_agent) ''inbox'' (maxCount single_pass_config) None
          = Inr \<lparr>result_threads = [''t1''], result_nextPageToken = None\<rparr>
      \<and> (result_nextPageToken \<lparr>result_threads = [''t1''], result_nextPageToken = None\<rparr> = None
           \<or> \<not> shouldLoop single_pass_config)"
    by (simp add: syncThread_def getWithRetry_def listWithRetry_def release_thread_def
        broadcastChatMessage_def request_token_def truthy_def threshold_met_def
        getThreadCount_def sync_finally_def Let_def example_env_def empty_token_env_def
        example_agent_def cached_agent_def looping_config_def single_pass_config_def
        empty_thread_def example_row_def)
  have h3: "listWithRetry empty_token_env cached_agent ''inbox'' (maxCount looping_config)
         (request_token None)
       = (Inr \<lparr>result_threads = [''t1''], result_nextPageToken = Some []\<rparr>,
          cached_agent\<lparr>calls := [ListCall ''inbox'' None]\<rparr>)"
    by (simp add: syncThread_def getWithRetry_def listWithRetry_def release_thread_def
        broadcastChatMessage_def request_token_def truthy_def threshold_met_def
        getThreadCount_def sync_finally_def Let_def example_env_def empty_token_env_def
        example_agent_def cached_agent_def looping_config_def single_pass_config_def
        empty_thread_def example_row_def)
  have h4: "shouldLoop looping_config" by (simp add: looping_config_def)
  note a = sync_stop_conditions [where s = cached_agent and fld = "''inbox''"
      and cfg = single_pass_config and e = example_env]
  note b = sync_stop_conditions [where s = example_agent and fld = "''inbox''"
      and cfg = single_pass_config and e = example_env
      and page = "\<lparr>result_threads = [''t1''], result_nextPageToken = None\<rparr>"]
  note c = sync_stop_conditions [where s = cached_agent and fld = "''inbox''"
      and cfg = looping_config and e = empty_token_env and tok = None and n = 0
      and result = "\<lparr>result_threads = [''t1''], result_nextPageToken = Some []\<rparr>"
      and ?s1.0 = "cached_agent\<lparr>calls := [ListCall ''inbox'' None]\<rparr>"]
  from a h1 have r1: "syncThreads example_env single_pass_config cached_agent ''inbox''
       = Some (Inr \<lparr>synced = 0, message = Some ''Threads already synced''\<rparr>, cached_agent)"
    by blast
  from b h2 have r2: "map_option fst (syncThreads example_env single_pass_config example_agent ''inbox'')
       = Some (Inr \<lparr>synced = 1, message = None\<rparr>)"
    by simp
  from c h3 h4 have r3: "sync_loop empty_token_env looping_config ''inbox'' cached_agent None 0
       = sync_loop empty_token_env looping_config ''inbox''
           (broadcastChatMessage
              (sync_page_threads empty_token_env looping_config
                 (cached_agent\<lparr>calls := [ListCall ''inbox'' None]\<rparr>) [''t1''])
              (Mail_List ''inbox'') [])
           (Some []) 1"
    by simp
  from h1 h2 h3 r1 r2 r3 show ?thesis by blast
qed

text \<open>
  Claim C4 as it is stated fails. With one cached row, \<open>maxCount\<close> one and the loop flag
  true, the threshold is met before the start and yet two pages are fetched and two threads
  counted; the first of the pages carries the empty string as its token, which does not
  end the loop either.
\<close>

theorem threshold_alone_does_not_stop:
  "threshold_met looping_config (getThreadCount cached_agent)
   \<and> map_option fst (syncThreads empty_token_env looping_config cached_agent ''inbox'')
       = Some (Inr \<lparr>synced = 2, message = None\<rparr>)
   \<and> map_option (calls \<circ> snd) (syncThreads empty_token_env looping_config cached_agent ''inbox'')
       = Some [ListCall ''inbox'' None, GetCall ''t1'', ListCall ''inbox'' None, GetCall ''t1'']"
proof -
  have "sync_loop empty_token_env looping_config ''inbox''
          (cached_agent\<lparr>foldersInSync := (foldersInSync cached_agent)(''inbox'' \<mapsto> True)\<rparr>) None 0
        = Some (Inr 2,
            cached_agent\<lparr>foldersInSync := (foldersInSync cached_agent)(''inbox'' \<mapsto> True),
              calls := [ListCall ''inbox'' None, GetCall ''t1'', ListCall ''inbox'' None, GetCall ''t1''],
              sent := [(Mail_List ''inbox'', []), (Mail_List ''inbox'', [])]\<rparr>)"
    apply (subst sync_loop.simps)
    apply (simp add: syncThread_def getWithRetry_def listWithRetry_def release_thread_def
        broadcastChatMessage_def request_token_def truthy_def threshold_met_def
        getThreadCount_def sync_finally_def Let_def example_env_def empty_token_env_def
        example_agent_def cached_agent_def looping_config_def single_pass_config_def
        empty_thread_def example_row_def)
    apply (subst sync_loop.simps)
    apply (simp add: syncThread_def getWithRetry_def listWithRetry_def release_thread_def
        broadcastChatMessage_def request_token_def truthy_def threshold_met_def
        getThreadCount_def sync_finally_def Let_def example_env_def empty_token_env_def
        example_agent_def cached_agent_def looping_config_def single_pass_config_def
        empty_thread_def example_row_def)
    done
  then show ?thesis
    by (simp add: syncThreads_def syncThread_def getWithRetry_def listWithRetry_def release_thread_def
        broadcastChatMessage_def request_token_def truthy_def threshold_met_def
        getThreadCount_def sync_finally_def Let_def example_env_def empty_token_env_def
        example_agent_def cached_agent_def looping_config_def single_pass_config_def
        empty_thread_def example_row_def)
qed


lemma getThreadFromDB_hit:
  "select_thread s i = Some row \<Longrightarrow>
     getThreadFromDB e cfg s i l = (Inr (thread_of_row row (bucket s (getThreadKey s i))), s)"
  by simp

lemma getThreadFromDB_last:
  "select_thread s i = None \<Longrightarrow> getThreadFromDB e cfg s i True = (Inl ThreadNotFound, s)"
  by simp

lemma getThreadFromDB_sync_error:
  "select_thread s i = None \<Longrightarrow> syncThread e cfg s i = (Inl err, s') \<Longrightarrow>
     getThreadFromDB e cfg s i False = (Inl err, s')"
  by simp

lemma getThreadFromDB_retry:
  "select_thread s i = None \<Longrightarrow> syncThread e cfg s i = (Inr r, s') \<Longrightarrow>
     getThreadFromDB e cfg s i False =
       (case select_thread s' i of
          None \<Rightarrow> (Inl ThreadNotFound, s')
        | Some row \<Rightarrow> (Inr (thread_of_row row (bucket s' (getThreadKey s' i))), s'))"
  by (simp split: option.splits)

lemma syncThread_calls_le:
  "length (calls (snd (syncThread e cfg s t))) \<le> Suc (length (calls s))"
  by (auto simp: syncThread_def getWithRetry_def release_thread_def store_thread_def
      setupAuth_fields broadcastChatMessage_def Let_def split: sum.splits option.splits)

lemma getThreadFromDB_calls_le:
  "length (calls (snd (getThreadFromDB e cfg s i l))) \<le> Suc (length (calls s))"
proof (cases "select_thread s i")
  case (Some row)
  then show ?thesis by (simp add: getThreadFromDB_hit)
next
  case None
  show ?thesis
  proof (cases l)
    case True
    with None show ?thesis by (simp add: getThreadFromDB_last)
  next
    case False
    obtain r s' where st: "syncThread e cfg s i = (r, s')" by (cases "syncThread e cfg s i")
    with syncThread_calls_le [of e cfg s i] have le: "length (calls s') \<le> Suc (length (calls s))"
      by simp
    show ?thesis
    proof (cases r)
      case (Inl err)
      with None st False le show ?thesis by (simp add: getThreadFromDB_sync_error)
    next
      case (Inr x)
      with None st False le show ?thesis
        by (simp add: getThreadFromDB_retry split: option.splits)
    qed
  qed
qed

text \<open>
  Claim C5. When the row of a thread is absent, \<open>getThreadFromDB\<close> syncs that thread once
  and reads the cache once more, in the state the sync has left: a row found then is
  answered, and a second miss raises the not-found error with no further sync. A failure
  of the sync itself is passed on. A last attempt that misses raises the not-found error
  at once. The provider is asked for the thread at most once. \<open>getThread\<close> and \<open>get\<close> are
  this read behind the test for the driver.
\<close>

theorem cache_miss_single_retry:
  "(select_thread s i = None \<longrightarrow> getThreadFromDB e cfg s i True = (Inl ThreadNotFound, s))
   \<and> (select_thread s i = None \<and> syncThread e cfg s i = (Inl err, s') \<longrightarrow>
        getThreadFromDB e cfg s i False = (Inl err, s'))
   \<and> (select_thread s i = None \<and> syncThread e cfg s i = (Inr r, s'') \<longrightarrow>
        getThreadFromDB e cfg s i False =
          (case select_thread s'' i of
             None \<Rightarrow> (Inl ThreadNotFound, s'')
           | Some row \<Rightarrow> (Inr (thread_of_row row (bucket s'' (getThreadKey s'' i))), s'')))
   \<and> length (calls (snd (getThreadFromDB e cfg s i False))) \<le> Suc (length (calls s))
   \<and> (driver s \<longrightarrow> getThread e cfg s i = getThreadFromDB e cfg s i False
                  \<and> get_thread e cfg s i = getThreadFromDB e cfg s i False)"
  using getThreadFromDB_calls_le [of e cfg s i False]
  by (simp only: getThread_def get_thread_def)
     (simp add: getThreadFromDB_retry getThreadFromDB_sync_error getThreadFromDB_last
       del: getThreadFromDB.simps)

theorem cache_miss_single_retry_witness:
  "select_thread example_agent ''t1'' = None
   \<and> getThreadFromDB example_env looping_config example_agent ''t1'' True = (Inl ThreadNotFound, example_agent)
   \<and> fst (syncThread flaky_env looping_config example_agent ''t1'') = Inl (Upstream ''rate limit'')
   \<and> fst (getThreadFromDB flaky_env looping_config example_agent ''t1'' False) = Inl (Upstream ''rate limit'')
   \<and> fst (syncThread example_env looping_config example_agent ''t1'') = Inr NoLatestMessage
   \<and> fst (getThreadFromDB example_env looping_config example_agent ''t1'' False) = Inl ThreadNotFound
   \<and> calls (snd (getThreadFromDB example_env looping_config example_agent ''t1'' False)) = [GetCall ''t1'']
   \<and> fst (syncThread flaky_env looping_config example_agent ''t3'') = Inr (Synced example_thread)
   \<and> map_sum id td_messages (fst (getThread flaky_env looping_config example_agent ''t3'')) = Inr [example_message]"
proof -
  have miss: "select_thread example_agent ''t1'' = None" "select_thread example_agent ''t3'' = None"
    "driver example_agent"
    by (simp_all add: select_thread_def example_agent_def)
  have s1: "syncThread flaky_env looping_config example_agent ''t1''
      = (Inl (Upstream ''rate limit''), snd (syncThread flaky_env looping_config example_agent ''t1''))"
    by (simp add: syncThread_def getWithRetry_def release_thread_def store_thread_def
        broadcastChatMessage_def insert_or_replace_def getThreadKey_def select_thread_def
        Let_def example_env_def flaky_env_def example_agent_def empty_thread_def
        example_thread_def example_message_def)
  have s2: "syncThread example_env looping_config example_agent ''t1''
      = (Inr NoLatestMessage, snd (syncThread example_env looping_config example_agent ''t1''))"
    by (simp add: syncThread_def getWithRetry_def release_thread_def store_thread_def
        broadcastChatMessage_def insert_or_replace_def getThreadKey_def select_thread_def
        Let_def example_env_def flaky_env_def example_agent_def empty_thread_def
        example_thread_def example_message_def)
  have s3: "syncThread flaky_env looping_config example_agent ''t3''
      = (Inr (Synced example_thread), snd (syncThread flaky_env looping_config example_agent ''t3''))"
    by (simp add: syncThread_def getWithRetry_def release_thread_def store_thread_def
        broadcastChatMessage_def insert_or_replace_def getThreadKey_def select_thread_def
        Let_def example_env_def flaky_env_def example_agent_def empty_thread_def
        example_thread_def example_message_def)
  have after2: "select_thread (snd (syncThread example_env looping_config example_agent ''t1'')) ''t1'' = None"
    "calls (snd (syncThread example_env looping_config example_agent ''t1'')) = [GetCall ''t1'']"
    by (simp_all add: syncThread_def getWithRetry_def release_thread_def store_thread_def
        broadcastChatMessage_def insert_or_replace_def getThreadKey_def select_thread_def
        Let_def example_env_def flaky_env_def example_agent_def empty_thread_def
        example_thread_def example_message_def)
  have after3: "map_option row_id (select_thread (snd (syncThread flaky_env looping_config example_agent ''t3'')) ''t3'')
      = Some ''t3''"
    "bucket (snd (syncThread flaky_env looping_config example_agent ''t3''))
       (getThreadKey (snd (syncThread flaky_env looping_config example_agent ''t3'')) ''t3'') = Some example_thread"
    by (simp_all add: syncThread_def getWithRetry_def release_thread_def store_thread_def
        broadcastChatMessage_def insert_or_replace_def getThreadKey_def select_thread_def
        Let_def example_env_def flaky_env_def example_agent_def empty_thread_def
        example_thread_def example_message_def)
  note a = cache_miss_single_retry [where s = example_agent and i = "''t1''" and e = flaky_env
      and cfg = looping_config and err = "Upstream ''rate limit''"
      and s' = "snd (syncThread flaky_env looping_config example_agent ''t1'')"]
  note b = cache_miss_single_retry [where s = example_agent and i = "''t1''" and e = example_env
      and cfg = looping_config and r = NoLatestMessage and s'' = "snd (syncThread example_env looping_config example_agent ''t1'')"]
  note c = cache_miss_single_retry [where s = example_agent and i = "''t3''" and e = flaky_env
      and cfg = looping_config and r = "Synced example_thread" and s'' = "snd (syncThread flaky_env looping_config example_agent ''t3'')"]
  from a miss s1 have r1: "fst (getThreadFromDB flaky_env looping_config example_agent ''t1'' False)
      = Inl (Upstream ''rate limit'')"
    by (simp del: getThreadFromDB.simps)
  from b miss have r0: "getThreadFromDB example_env looping_config example_agent ''t1'' True
      = (Inl ThreadNotFound, example_agent)"
    by blast
  from b miss s2 after2 have r2: "fst (getThreadFromDB example_env looping_config example_agent ''t1'' False)
      = Inl ThreadNotFound"
    "calls (snd (getThreadFromDB example_env looping_config example_agent ''t1'' False)) = [GetCall ''t1'']"
    by (simp_all del: getThreadFromDB.simps)
  from c miss s3 after3 have r3:
    "map_sum id td_messages (fst (getThread flaky_env looping_config example_agent ''t3'')) = Inr [example_message]"
    by (auto simp add: thread_of_row_def example_thread_def simp del: getThreadFromDB.simps
        split: option.splits)
  from miss s1 s2 s3 r0 r1 r2 r3 show ?thesis
    by (metis fst_conv)
qed


lemma sync_loop_step:
  assumes "listWithRetry e s fld (maxCount cfg) (request_token tok) = (Inr result, s1)"
  shows "sync_loop e cfg fld s tok n =
          (if result_nextPageToken result \<noteq> None \<and> shouldLoop cfg
           then sync_loop e cfg fld
                  (broadcastChatMessage (sync_page_threads e cfg s1 (result_threads result))
                     (Mail_List fld) [])
                  (result_nextPageToken result) (n + length (result_threads result))
           else Some (Inr (n + length (result_threads result)),
                      broadcastChatMessage (sync_page_threads e cfg s1 (result_threads result))
                        (Mail_List fld) []))"
proof (cases "result_nextPageToken result \<noteq> None \<and> shouldLoop cfg")
  case True
  with sync_loop_continue [OF assms, of n] show ?thesis by simp
next
  case False
  then have "result_nextPageToken result = None \<or> \<not> shouldLoop cfg" by blast
  from sync_loop_stop [OF assms this, of n] False show ?thesis by auto
qed

text \<open>
  A sync that fetches one page asks the provider for every thread of the page, whatever
  the provider answers for each, counts them all and clears its marker.
\<close>

lemma syncThreads_page_fetched:
  assumes "driver s" and "foldersInSync s fld = None"
    and "\<not> (threshold_met cfg (getThreadCount s) \<and> \<not> shouldLoop cfg)"
    and "upstream_list e (calls s) fld (maxCount cfg) None = Inr page"
    and "result_nextPageToken page = None \<or> \<not> shouldLoop cfg"
    and "\<forall>u \<in> set (result_threads page). syncThreadsInProgress s u = None"
  shows "\<exists>s'. syncThreads e cfg s fld =
                Some (Inr \<lparr>synced = length (result_threads page), message = None\<rparr>, s')
              \<and> calls s' = calls s @ ListCall fld None # map GetCall (result_threads page)
              \<and> foldersInSync s' fld = None"
proof -
  let ?s0 = "s\<lparr>foldersInSync := (foldersInSync s)(fld \<mapsto> True),
               calls := calls s @ [ListCall fld None]\<rparr>"
  let ?s1 = "sync_page_threads e cfg ?s0 (result_threads page)"
  have d: "driver ?s0" using assms(1) by simp
  have free: "\<forall>u \<in> set (result_threads page). syncThreadsInProgress ?s0 u = None"
    using assms(6) by simp
  from sync_page_threads_calls [OF d free, of e cfg]
  have c: "calls ?s1 = calls s @ ListCall fld None # map GetCall (result_threads page)"
    by simp
  have run: "syncThreads e cfg s fld =
      Some (Inr \<lparr>synced = length (result_threads page), message = None\<rparr>,
            sync_finally (broadcastChatMessage ?s1 (Mail_List fld) []) fld)"
    using assms(1-5) by (rule syncThreads_single_page)
  have "calls (sync_finally (broadcastChatMessage ?s1 (Mail_List fld) []) fld) = calls ?s1"
    "foldersInSync (sync_finally (broadcastChatMessage ?s1 (Mail_List fld) []) fld) fld = None"
    by (simp_all add: sync_finally_def broadcastChatMessage_def)
  with run c show ?thesis by simp
qed

text \<open>
  Claim C6. Within a page, the loop goes on with the remaining threads whatever the sync
  of a thread returns, so that every thread of the page is fetched from the provider, in
  order, whichever of them fail. The loop of \<open>syncThreads\<close> runs every page it has fetched
  through these syncs before it goes on or returns, and a \<open>syncThreads\<close> that fetches one
  page asks the provider for each of its threads, counts them all, returns its count and
  clears the marker of its folder, whichever of the threads fail. A page fetch that fails
  ends the loop with that failure; \<open>syncThreads\<close> passes it on to its caller, and whatever a
  started \<open>syncThreads\<close> returns, the marker of its folder is cleared.
\<close>

theorem sync_failure_isolation:
  "(driver s \<and> (\<forall>u \<in> set ts. syncThreadsInProgress s u = None) \<longrightarrow>
      calls (sync_page_threads e cfg s ts) = calls s @ map GetCall ts)
   \<and> sync_page_threads e cfg s (t # ts) = sync_page_threads e cfg (snd (syncThread e cfg s t)) ts
   \<and> (listWithRetry e s fld (maxCount cfg) (request_token tok) = (Inr result, s2) \<longrightarrow>
        sync_loop e cfg fld s tok n =
          (if result_nextPageToken result \<noteq> None \<and> shouldLoop cfg
           then sync_loop e cfg fld
                  (broadcastChatMessage (sync_page_threads e cfg s2 (result_threads result))
                     (Mail_List fld) [])
                  (result_nextPageToken result) (n + length (result_threads result))
           else Some (Inr (n + length (result_threads result)),
                      broadcastChatMessage (sync_page_threads e cfg s2 (result_threads result))
                        (Mail_List fld) [])))
   \<and> (driver s \<and> foldersInSync s fld = None
        \<and> \<not> (threshold_met cfg (getThreadCount s) \<and> \<not> shouldLoop cfg)
        \<and> upstream_list e (calls s) fld (maxCount cfg) None = Inr page
        \<and> (result_nextPageToken page = None \<or> \<not> shouldLoop cfg)
        \<and> (\<forall>u \<in> set (result_threads page). syncThreadsInProgress s u = None) \<longrightarrow>
        (\<exists>s3. syncThreads e cfg s fld =
                 Some (Inr \<lparr>synced = length (result_threads page), message = None\<rparr>, s3)
               \<and> calls s3 = calls s @ ListCall fld None # map GetCall (result_threads page)
               \<and> foldersInSync s3 fld = None))
   \<and> (listWithRetry e s fld (maxCount cfg) (request_token tok) = (Inl err, s1) \<longrightarrow>
        sync_loop e cfg fld s tok n = Some (Inl err, s1))
   \<and> (driver s \<and> foldersInSync s fld = None
        \<and> \<not> (threshold_met cfg (getThreadCount s) \<and> \<not> shouldLoop cfg)
        \<and> syncThreads e cfg s fld = Some (r, s') \<longrightarrow>
        foldersInSync s' fld = None)
   \<and> (driver s \<and> foldersInSync s fld = None
        \<and> \<not> (threshold_met cfg (getThreadCount s) \<and> \<not> shouldLoop cfg)
        \<and> upstream_list e (calls s) fld (maxCount cfg) None = Inl err \<longrightarrow>
        syncThreads e cfg s fld =
          Some (Inl err,
                sync_finally
                  (s\<lparr>foldersInSync := (foldersInSync s)(fld \<mapsto> True),
                     calls := calls s @ [ListCall fld None]\<rparr>) fld))"
proof (intro conjI impI)
  assume "driver s \<and> (\<forall>u \<in> set ts. syncThreadsInProgress s u = None)"
  then show "calls (sync_page_threads e cfg s ts) = calls s @ map GetCall ts"
    by (simp add: sync_page_threads_calls)
next
  show "sync_page_threads e cfg s (t # ts) = sync_page_threads e cfg (snd (syncThread e cfg s t)) ts"
    by (rule sync_page_threads_step)
next
  assume "listWithRetry e s fld (maxCount cfg) (request_token tok) = (Inr result, s2)"
  then show "sync_loop e cfg fld s tok n =
          (if result_nextPageToken result \<noteq> None \<and> shouldLoop cfg
           then sync_loop e cfg fld
                  (broadcastChatMessage (sync_page_threads e cfg s2 (result_threads result))
                     (Mail_List fld) [])
                  (result_nextPageToken result) (n + length (result_threads result))
           else Some (Inr (n + length (result_threads result)),
                      broadcastChatMessage (sync_page_threads e cfg s2 (result_threads result))
                        (Mail_List fld) []))"
    by (rule sync_loop_step)
next
  assume "driver s \<and> foldersInSync s fld = None
        \<and> \<not> (threshold_met cfg (getThreadCount s) \<and> \<not> shouldLoop cfg)
        \<and> upstream_list e (calls s) fld (maxCount cfg) None = Inr page
        \<and> (result_nextPageToken page = None \<or> \<not> shouldLoop cfg)
        \<and> (\<forall>u \<in> set (result_threads page). syncThreadsInProgress s u = None)"
  then show "\<exists>s3. syncThreads e cfg s fld =
                 Some (Inr \<lparr>synced = length (result_threads page), message = None\<rparr>, s3)
               \<and> calls s3 = calls s @ ListCall fld None # map GetCall (result_threads page)
               \<and> foldersInSync s3 fld = None"
    by (intro syncThreads_page_fetched) simp_all
next
  assume "listWithRetry e s fld (maxCount cfg) (request_token tok) = (Inl err, s1)"
  then show "sync_loop e cfg fld s tok n = Some (Inl err, s1)"
    by (rule sync_loop_failure)
next
  assume "driver s \<and> foldersInSync s fld = None
        \<and> \<not> (threshold_met cfg (getThreadCount s) \<and> \<not> shouldLoop cfg)
        \<and> syncThreads e cfg s fld = Some (r, s')"
  then show "foldersInSync s' fld = None"
    using syncThreads_released [where s = s and fld = fld and cfg = cfg and e = e and r = r
        and s' = s'] by blast
next
  assume "driver s \<and> foldersInSync s fld = None
        \<and> \<not> (threshold_met cfg (getThreadCount s) \<and> \<not> shouldLoop cfg)
        \<and> upstream_list e (calls s) fld (maxCount cfg) None = Inl err"
  then show "syncThreads e cfg s fld =
          Some (Inl err,
                sync_finally
                  (s\<lparr>foldersInSync := (foldersInSync s)(fld \<mapsto> True),
                     calls := calls s @ [ListCall fld None]\<rparr>) fld)"
    by (intro syncThreads_first_page_failure) simp_all
qed

theorem sync_failure_isolation_witness:
  "driver example_agent
   \<and> syncThreadsInProgress example_agent ''t1'' = None
   \<and> syncThreadsInProgress example_agent ''t3'' = None
   \<and> fst (syncThread failing_thread_env looping_config example_agent ''t1'')
       = Inl (Upstream ''rate limit'')
   \<and> calls (sync_page_threads failing_thread_env looping_config example_agent [''t1'', ''t3''])
       = [GetCall ''t1'', GetCall ''t3'']
   \<and> upstream_list failing_thread_env (calls example_agent) ''inbox'' (maxCount looping_config) None
       = Inr \<lparr>result_threads = [''t1'', ''t3''], result_nextPageToken = None\<rparr>
   \<and> map_option fst (syncThreads failing_thread_env looping_config example_agent ''inbox'')
       = Some (Inr \<lparr>synced = 2, message = None\<rparr>)
   \<and> map_option (calls \<circ> snd) (syncThreads failing_thread_env looping_config example_agent ''inbox'')
       = Some [ListCall ''inbox'' None, GetCall ''t1'', GetCall ''t3'']
   \<and> map_option (\<lambda>x. map row_id (threads (snd x)))
        (syncThreads failing_thread_env looping_config example_agent ''inbox'') = Some [''t3'']
   \<and> map_option (\<lambda>x. foldersInSync (snd x) ''inbox'')
        (syncThreads failing_thread_env looping_config example_agent ''inbox'') = Some None
   \<and> fst (listWithRetry flaky_env example_agent ''inbox'' (maxCount looping_config)
            (request_token None)) = Inl (Upstream ''rate limit'')
   \<and> map_option fst (sync_loop flaky_env looping_config ''inbox'' example_agent None 0)
       = Some (Inl (Upstream ''rate limit''))
   \<and> map_option fst (syncThreads flaky_env looping_config example_agent ''inbox'')
       = Some (Inl (Upstream ''rate limit''))
   \<and> map_option (\<lambda>x. foldersInSync (snd x) ''inbox'')
        (syncThreads flaky_env looping_config example_agent ''inbox'') = Some None"
proof -
  have h1: "driver example_agent
      \<and> (\<forall>u \<in> set [''t1'', ''t3'']. syncThreadsInProgress example_agent u = None)"
    by (simp add: example_agent_def)
  have h2: "fst (syncThread failing_thread_env looping_config example_agent ''t1'')
      = Inl (Upstream ''rate limit'')"
    by (simp add: syncThread_def getWithRetry_def release_thread_def Let_def
        failing_thread_env_def example_env_def example_agent_def)
  have h3: "foldersInSync example_agent ''inbox'' = None
      \<and> \<not> (threshold_met looping_config (getThreadCount example_agent)
            \<and> \<not> shouldLoop looping_config)"
    by (simp add: example_agent_def looping_config_def)
  have h4: "listWithRetry flaky_env example_agent ''inbox'' (maxCount looping_config)
            (request_token None)
      = (Inl (Upstream ''rate limit''), example_agent\<lparr>calls := [ListCall ''inbox'' None]\<rparr>)"
    by (simp add: listWithRetry_def request_token_def truthy_def flaky_env_def example_env_def
        example_agent_def)
  have h5: "upstream_list flaky_env (calls example_agent) ''inbox'' (maxCount looping_config) None
          = Inl (Upstream ''rate limit'')"
    by (simp add: flaky_env_def example_env_def)
  have h6: "upstream_list failing_thread_env (calls example_agent) ''inbox''
        (maxCount looping_config) None
      = Inr \<lparr>result_threads = [''t1'', ''t3''], result_nextPageToken = None\<rparr>"
    by (simp add: failing_thread_env_def example_env_def)
  have h7: "map_option (\<lambda>x. map row_id (threads (snd x)))
        (syncThreads failing_thread_env looping_config example_agent ''inbox'') = Some [''t3'']"
    apply (simp add: syncThreads_def threshold_met_def getThreadCount_def example_agent_def
        looping_config_def)
    apply (subst sync_loop.simps)
    apply (simp add: syncThread_def getWithRetry_def listWithRetry_def release_thread_def
        store_thread_def broadcastChatMessage_def insert_or_replace_def getThreadKey_def
        request_token_def truthy_def sync_finally_def Let_def failing_thread_env_def
        example_env_def example_thread_def example_message_def)
    done
  note a = sync_failure_isolation [where s = example_agent and ts = "[''t1'', ''t3'']"
      and e = failing_thread_env and fld = "''inbox''" and cfg = looping_config
      and page = "\<lparr>result_threads = [''t1'', ''t3''], result_nextPageToken = None\<rparr>"]
  note b = sync_failure_isolation [where s = example_agent
      and e = flaky_env and fld = "''inbox''" and cfg = looping_config and tok = None and n = 0
      and err = "Upstream ''rate limit''"
      and ?s1.0 = "example_agent\<lparr>calls := [ListCall ''inbox'' None]\<rparr>"
      and r = "Inl (Upstream ''rate limit'')"
      and s' = "sync_finally
                  (example_agent\<lparr>foldersInSync := (foldersInSync example_agent)(''inbox'' \<mapsto> True),
                     calls := calls example_agent @ [ListCall ''inbox'' None]\<rparr>) ''inbox''"]
  have c0: "calls example_agent = []" by (simp add: example_agent_def)
  from mp [OF a [THEN conjunct1] h1] c0
  have r1: "calls (sync_page_threads failing_thread_env looping_config example_agent
        [''t1'', ''t3'']) = [GetCall ''t1'', GetCall ''t3'']"
    by simp
  have pre: "driver example_agent \<and> foldersInSync example_agent ''inbox'' = None
      \<and> \<not> (threshold_met looping_config (getThreadCount example_agent)
            \<and> \<not> shouldLoop looping_config)
      \<and> upstream_list failing_thread_env (calls example_agent) ''inbox''
            (maxCount looping_config) None
          = Inr \<lparr>result_threads = [''t1'', ''t3''], result_nextPageToken = None\<rparr>
      \<and> (result_nextPageToken \<lparr>result_threads = [''t1'', ''t3''], result_nextPageToken = None\<rparr>
            = None \<or> \<not> shouldLoop looping_config)
      \<and> (\<forall>u \<in> set (result_threads
                  \<lparr>result_threads = [''t1'', ''t3''], result_nextPageToken = None\<rparr>).
            syncThreadsInProgress example_agent u = None)"
    using h1 h3 h6 by simp
  from mp [OF a [THEN conjunct2, THEN conjunct2, THEN conjunct2, THEN conjunct1] pre]
  obtain s3 where
    q2: "syncThreads failing_thread_env looping_config example_agent ''inbox''
           = Some (Inr \<lparr>synced = length (result_threads
                \<lparr>result_threads = [''t1'', ''t3''], result_nextPageToken = None\<rparr>),
              message = None\<rparr>, s3)"
    and q3: "calls s3 = calls example_agent @ ListCall ''inbox'' None
          # map GetCall (result_threads
              \<lparr>result_threads = [''t1'', ''t3''], result_nextPageToken = None\<rparr>)"
    and r4: "foldersInSync s3 ''inbox'' = None"
    by blast
  from q2 have r2: "syncThreads failing_thread_env looping_config example_agent ''inbox''
           = Some (Inr \<lparr>synced = 2, message = None\<rparr>, s3)"
    by simp
  from q3 c0 have r3: "calls s3 = [ListCall ''inbox'' None, GetCall ''t1'', GetCall ''t3'']"
    by simp
  from b h4 have r5: "map_option fst (sync_loop flaky_env looping_config ''inbox'' example_agent None 0)
       = Some (Inl (Upstream ''rate limit''))"
    by simp
  from b h1 h3 h5 have r6: "syncThreads flaky_env looping_config example_agent ''inbox'' =
      Some (Inl (Upstream ''rate limit''),
            sync_finally
              (example_agent\<lparr>foldersInSync := (foldersInSync example_agent)(''inbox'' \<mapsto> True),
                 calls := calls example_agent @ [ListCall ''inbox'' None]\<rparr>) ''inbox'')"
    by blast
  from b h1 h3 r6 have r7: "foldersInSync (sync_finally
              (example_agent\<lparr>foldersInSync := (foldersInSync example_agent)(''inbox'' \<mapsto> True),
                 calls := calls example_agent @ [ListCall ''inbox'' None]\<rparr>) ''inbox'') ''inbox'' = None"
    by blast
  from h1 h2 h4 h6 h7 r1 r2 r3 r4 r5 r6 r7 show ?thesis by simp
qed

end
